theory Spec2Isabelle
  imports Complex_Main "HOL-Library.Sublist" "HOL-Library.Multiset"
begin

section \<open>Transport lookup page: geocoding, nearby-place aggregation, distances, sorting\<close>

text \<open>
  The development embeds \<^verbatim>\<open>pages/3_Transport_Info.py\<close>. The two HTTP providers are
  parameters of the model: a function from the request that is sent to the response that
  comes back. So is the Python runtime (\<open>python\<close> below): the case mapping of strings and
  the arithmetic of floats are not part of the repository. Python exceptions are values of
  the type \<open>error\<close>. The calls of the UI framework that only
  print (\<^verbatim>\<open>st.error\<close>, \<^verbatim>\<open>st.warning\<close>) change no value of the program and are left out of
  the functions that fetch data; the page flow records which message is shown.
\<close>

subsection \<open>Strings\<close>

text \<open>
  A Python string is modelled by its UTF-8 bytes. The case mapping on the letters A to Z,
  with every other byte kept: it is what \<^verbatim>\<open>str.lower()\<close> does on an ASCII string, and it
  is the case mapping of the runtime \<open>exact_python\<close> on which concrete examples are
  evaluated. The functions of the program take the case mapping from their runtime.
\<close>

definition ascii_lower_char :: "char \<Rightarrow> char" where
  "ascii_lower_char c =
     (case map_of (zip ''ABCDEFGHIJKLMNOPQRSTUVWXYZ'' ''abcdefghijklmnopqrstuvwxyz'') c of
        Some l \<Rightarrow> l
      | None \<Rightarrow> c)"

definition ascii_lower :: "string \<Rightarrow> string" where
  "ascii_lower s = map ascii_lower_char s"

text \<open>
  Python's \<^verbatim>\<open>sub in s\<close> on strings: \<open>sub\<close> occurs in \<open>s\<close> as a contiguous block. For an
  ASCII \<open>sub\<close> this is the same on the bytes of the UTF-8 encoding as on the code points.
\<close>

fun str_contains :: "string \<Rightarrow> string \<Rightarrow> bool" where
  "str_contains sub [] = (sub = [])"
| "str_contains sub (c # cs) = (prefix sub (c # cs) \<or> str_contains sub cs)"

subsection \<open>Exceptions\<close>

datatype error =
    RequestException string
  | KeyError string
  | ValueError string

text \<open>
  \<^verbatim>\<open>str(e)\<close>: the message of a request exception or of a \<^verbatim>\<open>ValueError\<close>, the quoted key
  of a \<^verbatim>\<open>KeyError\<close>.
\<close>

fun str_of_error :: "error \<Rightarrow> string" where
  "str_of_error (RequestException msg) = msg"
| "str_of_error (KeyError k) = [CHR 0x27] @ k @ [CHR 0x27]"
| "str_of_error (ValueError msg) = msg"

subsection \<open>The Python runtime\<close>

text \<open>
  What the program takes from Python and its \<^verbatim>\<open>math\<close> module. A float is represented by
  the real number it denotes (no NaN, no infinity), and each operation gives the float that
  the runtime computes, which need not be the exact result. \<open>sqrt_nonneg\<close> is
  \<^verbatim>\<open>math.sqrt\<close> on an argument that is not negative; \<open>float_pow\<close> is \<^verbatim>\<open>**\<close> with a
  natural exponent.
\<close>

record python =
  str_lower :: "string \<Rightarrow> string"
  float_add :: "real \<Rightarrow> real \<Rightarrow> real"
  float_sub :: "real \<Rightarrow> real \<Rightarrow> real"
  float_mul :: "real \<Rightarrow> real \<Rightarrow> real"
  float_div :: "real \<Rightarrow> real \<Rightarrow> real"
  float_pow :: "real \<Rightarrow> nat \<Rightarrow> real"
  math_radians :: "real \<Rightarrow> real"
  math_sin :: "real \<Rightarrow> real"
  math_cos :: "real \<Rightarrow> real"
  math_atan2 :: "real \<Rightarrow> real \<Rightarrow> real"
  sqrt_nonneg :: "real \<Rightarrow> real"

text \<open>\<^verbatim>\<open>math.sqrt\<close> raises \<^verbatim>\<open>ValueError\<close> on a negative argument.\<close>

definition math_sqrt :: "python \<Rightarrow> real \<Rightarrow> error + real" where
  "math_sqrt py x =
     (if x < 0 then Inl (ValueError ''math domain error'') else Inr (sqrt_nonneg py x))"

text \<open>
  Python 3's \<^verbatim>\<open>round\<close> of a float to an integer: exact on the value of the float, ties go
  to the even integer.
\<close>

definition py_round :: "real \<Rightarrow> int" where
  "py_round x =
     (let f = \<lfloor>x\<rfloor>; d = x - of_int f
      in if d < 1 / 2 then f
         else if 1 / 2 < d then f + 1
         else if even f then f else f + 1)"

text \<open>
  The runtime with exact real arithmetic and the ASCII case mapping. It is not the
  arithmetic of floats; it serves to run the functions on concrete examples.
\<close>

definition radians :: "real \<Rightarrow> real" where
  "radians x = x * pi / 180"

definition atan2 :: "real \<Rightarrow> real \<Rightarrow> real" where
  "atan2 y x =
     (if 0 < x then arctan (y / x)
      else if x < 0 \<and> 0 \<le> y then arctan (y / x) + pi
      else if x < 0 \<and> y < 0 then arctan (y / x) - pi
      else if 0 < y then pi / 2
      else if y < 0 then - (pi / 2)
      else 0)"

definition exact_python :: python where
  "exact_python =
     \<lparr>str_lower = ascii_lower,
      float_add = (\<lambda>x y. x + y),
      float_sub = (\<lambda>x y. x - y),
      float_mul = (\<lambda>x y. x * y),
      float_div = (\<lambda>x y. x / y),
      float_pow = (\<lambda>x n. x ^ n),
      math_radians = radians,
      math_sin = sin,
      math_cos = cos,
      math_atan2 = atan2,
      sqrt_nonneg = sqrt\<rparr>"

subsection \<open>Distance\<close>

text \<open>The quantity \<^verbatim>\<open>a\<close> of \<^verbatim>\<open>haversine\<close>, in the order in which Python evaluates it.\<close>

definition haversine_a :: "python \<Rightarrow> real \<Rightarrow> real \<Rightarrow> real \<Rightarrow> real \<Rightarrow> real" where
  "haversine_a py lat1 lon1 lat2 lon2 =
     (let phi1 = math_radians py lat1;
          phi2 = math_radians py lat2;
          delta_phi = math_radians py (float_sub py lat2 lat1);
          delta_lambda = math_radians py (float_sub py lon2 lon1)
      in float_add py
           (float_pow py (math_sin py (float_div py delta_phi 2)) 2)
           (float_mul py
              (float_mul py (math_cos py phi1) (math_cos py phi2))
              (float_pow py (math_sin py (float_div py delta_lambda 2)) 2)))"

text \<open>
  \<^verbatim>\<open>haversine\<close>. Either square root raises when its argument is negative, which the
  rounding of the float operations can bring about (\<open>a\<close> slightly above 1 for two points
  that are nearly antipodal); the result is then the exception.
\<close>

definition haversine :: "python \<Rightarrow> real \<Rightarrow> real \<Rightarrow> real \<Rightarrow> real \<Rightarrow> error + int" where
  "haversine py lat1 lon1 lat2 lon2 =
     (let R = 6371000;
          a = haversine_a py lat1 lon1 lat2 lon2
      in case math_sqrt py a of
           Inl e \<Rightarrow> Inl e
         | Inr sqrt_a \<Rightarrow>
             (case math_sqrt py (float_sub py 1 a) of
                Inl e \<Rightarrow> Inl e
              | Inr sqrt_1a \<Rightarrow>
                  let c = float_mul py 2 (math_atan2 py sqrt_a sqrt_1a);
                      distance = float_mul py R c
                  in Inr (py_round distance)))"

subsection \<open>Data of the places provider and of the aggregated result\<close>

text \<open>The four values of the key \<^verbatim>\<open>"type"\<close> of a stored place.\<close>

datatype mode = Train_station | Tube_station | Tram_stop | Bus_stop

fun mode_key :: "mode \<Rightarrow> string" where
  "mode_key Train_station = ''train_station''"
| "mode_key Tube_station = ''tube_station''"
| "mode_key Tram_stop = ''tram_stop''"
| "mode_key Bus_stop = ''bus_stop''"

text \<open>One entry of \<^verbatim>\<open>queries\<close>: \<^verbatim>\<open>{"type": t}\<close> or \<^verbatim>\<open>{"keyword": k}\<close>.\<close>

datatype query_detail = Type string | Keyword string

definition queries :: "query_detail list" where
  "queries =
     [Type ''train_station'',
      Type ''subway_station'',
      Type ''light_rail_station'',
      Keyword ''Metrolink station'',
      Keyword ''tram stop'',
      Type ''bus_station'',
      Keyword ''bus stop'']"

text \<open>
  A candidate as the provider returns it. A field that is \<open>None\<close> is a key missing from
  the JSON object; \<open>geometry\<close> stands for \<^verbatim>\<open>place["geometry"]["location"]\<close> with its
  \<^verbatim>\<open>lat\<close> and \<^verbatim>\<open>lng\<close>.
\<close>

record place =
  place_id :: "string option"
  name :: "string option"
  types :: "string list option"
  geometry :: "(real \<times> real) option"
  vicinity :: "string option"

text \<open>The dictionary stored under a place id in \<^verbatim>\<open>all_places_dict\<close>.\<close>

record transport_place =
  entry_name :: "string option"
  latitude :: real
  longitude :: real
  app_type :: mode
  description :: "string option"
  google_place_id :: string
  distance :: "int option"
  google_types :: "string list"
  debug_query_source :: query_detail

text \<open>The request parameters of one nearby search (the API key is constant and left out).\<close>

record places_params =
  location :: "real \<times> real"
  radius :: int
  detail :: query_detail

text \<open>
  What one nearby search gives: an exception raised by \<^verbatim>\<open>requests.get\<close>,
  \<^verbatim>\<open>raise_for_status\<close> or \<^verbatim>\<open>response.json()\<close>, or a JSON object with its \<^verbatim>\<open>status\<close>
  (\<open>None\<close> when the key is missing) and its \<^verbatim>\<open>results\<close> (\<open>[]\<close> when missing).
\<close>

datatype places_response =
    Request_failed string
  | Payload "string option" "place list"

text \<open>The returned dictionary: the key \<^verbatim>\<open>"error"\<close> when present, and \<^verbatim>\<open>"member"\<close>.\<close>

record places_result =
  error :: "string option"
  member :: "transport_place list"

subsection \<open>Classification\<close>

text \<open>The chain of \<^verbatim>\<open>if\<close>/\<^verbatim>\<open>elif\<close> that assigns \<^verbatim>\<open>app_type\<close>; \<open>None\<close> when no branch fires.\<close>

definition classify :: "string \<Rightarrow> string list \<Rightarrow> mode option" where
  "classify place_name_lower gtypes =
     (if str_contains ''metrolink'' place_name_lower then Some Tram_stop
      else if ''subway_station'' \<in> set gtypes then Some Tube_station
      else if ''light_rail_station'' \<in> set gtypes then Some Tram_stop
      else if str_contains ''tram'' place_name_lower \<and> ''train_station'' \<notin> set gtypes
        then Some Tram_stop
      else if ''train_station'' \<in> set gtypes then Some Train_station
      else if ''bus_station'' \<in> set gtypes \<or> ''bus_stop'' \<in> set gtypes then Some Bus_stop
      else None)"

text \<open>
  \<^verbatim>\<open>place.get("types", [])\<close> and \<^verbatim>\<open>place.get("name", "").lower()\<close> with the case mapping
  of the runtime, then the chain.
\<close>

definition place_types :: "place \<Rightarrow> string list" where
  "place_types p = (case types p of None \<Rightarrow> [] | Some ts \<Rightarrow> ts)"

definition place_name_lower :: "python \<Rightarrow> place \<Rightarrow> string" where
  "place_name_lower py p = str_lower py (case name p of None \<Rightarrow> [] | Some n \<Rightarrow> n)"

definition classify_place :: "python \<Rightarrow> place \<Rightarrow> mode option" where
  "classify_place py p = classify (place_name_lower py p) (place_types p)"

text \<open>
  The precedence as the specification words it: an ordered list of rules, each a predicate
  on the lower-cased name and the category tags with the mode it gives; the first rule that
  matches decides, and a candidate that matches none has no mode.
\<close>

definition spec_rules :: "((string \<Rightarrow> string list \<Rightarrow> bool) \<times> mode) list" where
  "spec_rules =
     [(\<lambda>n ts. str_contains ''metrolink'' n, Tram_stop),
      (\<lambda>n ts. ''subway_station'' \<in> set ts, Tube_station),
      (\<lambda>n ts. ''light_rail_station'' \<in> set ts, Tram_stop),
      (\<lambda>n ts. str_contains ''tram'' n \<and> ''train_station'' \<notin> set ts, Tram_stop),
      (\<lambda>n ts. ''train_station'' \<in> set ts, Train_station),
      (\<lambda>n ts. ''bus_station'' \<in> set ts \<or> ''bus_stop'' \<in> set ts, Bus_stop)]"

fun first_match :: "((string \<Rightarrow> string list \<Rightarrow> bool) \<times> mode) list \<Rightarrow> string \<Rightarrow> string list \<Rightarrow> mode option" where
  "first_match [] n ts = None"
| "first_match ((pred, m) # rules) n ts = (if pred n ts then Some m else first_match rules n ts)"

subsection \<open>The aggregator\<close>

text \<open>
  Truth value of an optional float (\<^verbatim>\<open>None\<close> and \<^verbatim>\<open>0.0\<close> are false) and \<^verbatim>\<open>x or y\<close>.
\<close>

definition truthy :: "real option \<Rightarrow> bool" where
  "truthy x = (case x of None \<Rightarrow> False | Some v \<Rightarrow> v \<noteq> 0)"

definition py_or :: "real option \<Rightarrow> real \<Rightarrow> real" where
  "py_or x y = (case x of None \<Rightarrow> y | Some v \<Rightarrow> if v \<noteq> 0 then v else y)"

text \<open>
  The value of \<^verbatim>\<open>distance_val\<close> for a place at \<open>(place_lat, place_lon)\<close>, or the exception
  that \<^verbatim>\<open>haversine\<close> raises.
\<close>

definition distance_val ::
  "python \<Rightarrow> real \<Rightarrow> real \<Rightarrow> real option \<Rightarrow> real option \<Rightarrow> real \<Rightarrow> real \<Rightarrow> error + int option" where
  "distance_val py lat lon origin_lat origin_lon place_lat place_lon =
     (if truthy origin_lat \<and> truthy origin_lon
      then (case haversine py (py_or origin_lat lat) (py_or origin_lon lon) place_lat place_lon of
              Inl e \<Rightarrow> Inl e
            | Inr dv \<Rightarrow> Inr (Some dv))
      else Inr None)"

text \<open>
  The body of the loop over the candidates of one response. \<^verbatim>\<open>all_places_dict\<close> is an
  association list in insertion order, which is the order of \<^verbatim>\<open>values()\<close>. The result is
  the exception raised, if any (a missing geometry, or the \<^verbatim>\<open>ValueError\<close> of
  \<^verbatim>\<open>haversine\<close>), with the dictionary as it is then.
\<close>

definition process_place ::
  "python \<Rightarrow> query_detail \<Rightarrow> real \<Rightarrow> real \<Rightarrow> real option \<Rightarrow> real option \<Rightarrow> place \<Rightarrow>
   (string \<times> transport_place) list \<Rightarrow> error option \<times> (string \<times> transport_place) list" where
  "process_place py query_detail lat lon origin_lat origin_lon p all_places_dict =
     (case place_id p of
        None \<Rightarrow> (None, all_places_dict)
      | Some pid \<Rightarrow>
          if pid = [] then (None, all_places_dict)
          else
            (case classify_place py p of
               None \<Rightarrow> (None, all_places_dict)
             | Some t \<Rightarrow>
                 if pid \<in> fst ` set all_places_dict then (None, all_places_dict)
                 else
                   (case geometry p of
                      None \<Rightarrow> (Some (KeyError ''geometry''), all_places_dict)
                    | Some (place_lat, place_lon) \<Rightarrow>
                        (case distance_val py lat lon origin_lat origin_lon place_lat place_lon of
                           Inl e \<Rightarrow> (Some e, all_places_dict)
                         | Inr dv \<Rightarrow>
                             (None,
                              all_places_dict @
                                [(pid,
                                  \<lparr>entry_name = name p,
                                   latitude = place_lat,
                                   longitude = place_lon,
                                   app_type = t,
                                   description = vicinity p,
                                   google_place_id = pid,
                                   distance = dv,
                                   google_types = place_types p,
                                   debug_query_source = query_detail\<rparr>)])))))"

fun process_results ::
  "python \<Rightarrow> query_detail \<Rightarrow> real \<Rightarrow> real \<Rightarrow> real option \<Rightarrow> real option \<Rightarrow> place list \<Rightarrow>
   (string \<times> transport_place) list \<Rightarrow> error option \<times> (string \<times> transport_place) list" where
  "process_results py q lat lon origin_lat origin_lon [] d = (None, d)"
| "process_results py q lat lon origin_lat origin_lon (p # ps) d =
     (case process_place py q lat lon origin_lat origin_lon p d of
        (Some e, d') \<Rightarrow> (Some e, d')
      | (None, d') \<Rightarrow> process_results py q lat lon origin_lat origin_lon ps d')"

text \<open>\<^verbatim>\<open>int(radius)\<close>: truncation towards zero.\<close>

definition py_int :: "real \<Rightarrow> int" where
  "py_int r = (if 0 \<le> r then \<lfloor>r\<rfloor> else \<lceil>r\<rceil>)"

definition make_params :: "real \<Rightarrow> real \<Rightarrow> real \<Rightarrow> query_detail \<Rightarrow> places_params" where
  "make_params lat lon rad q = \<lparr>location = (lat, lon), radius = py_int rad, detail = q\<rparr>"

text \<open>
  The state of the loop over the queries: the exception that ended it, if any, the
  dictionary, and the requests sent so far, in order.
\<close>

record loop_state =
  raised :: "error option"
  all_places_dict :: "(string \<times> transport_place) list"
  requests :: "places_params list"

fun run_queries ::
  "python \<Rightarrow> (places_params \<Rightarrow> places_response) \<Rightarrow> real \<Rightarrow> real \<Rightarrow> real \<Rightarrow> real option \<Rightarrow> real option \<Rightarrow>
   query_detail list \<Rightarrow> (string \<times> transport_place) list \<Rightarrow> places_params list \<Rightarrow> loop_state" where
  "run_queries py api lat lon rad origin_lat origin_lon [] d sent =
     \<lparr>raised = None, all_places_dict = d, requests = sent\<rparr>"
| "run_queries py api lat lon rad origin_lat origin_lon (q # qs) d sent =
     (let params = make_params lat lon rad q;
          sent' = sent @ [params]
      in case api params of
           Request_failed msg \<Rightarrow>
             \<lparr>raised = Some (RequestException msg), all_places_dict = d, requests = sent'\<rparr>
         | Payload status results \<Rightarrow>
             (case status of
                None \<Rightarrow> \<lparr>raised = Some (KeyError ''status''), all_places_dict = d, requests = sent'\<rparr>
              | Some s \<Rightarrow>
                  if s = ''OK'' then
                    (case process_results py q lat lon origin_lat origin_lon results d of
                       (Some e, d') \<Rightarrow> \<lparr>raised = Some e, all_places_dict = d', requests = sent'\<rparr>
                     | (None, d') \<Rightarrow> run_queries py api lat lon rad origin_lat origin_lon qs d' sent')
                  else run_queries py api lat lon rad origin_lat origin_lon qs d sent'))"

definition result_of :: "loop_state \<Rightarrow> places_result" where
  "result_of s =
     \<lparr>error = map_option str_of_error (raised s), member = map snd (all_places_dict s)\<rparr>"

text \<open>
  \<^verbatim>\<open>get_google_places_data\<close>, with the requests it sent. The memoisation of the framework
  is not part of the function.
\<close>

definition get_google_places_data ::
  "python \<Rightarrow> (places_params \<Rightarrow> places_response) \<Rightarrow> real \<Rightarrow> real \<Rightarrow> real \<Rightarrow> real option \<Rightarrow> real option \<Rightarrow>
   places_result \<times> places_params list" where
  "get_google_places_data py api lat lon rad origin_lat origin_lon =
     (let s = run_queries py api lat lon rad origin_lat origin_lon queries [] []
      in (result_of s, requests s))"

text \<open>
  The modes that the chain gives to those candidates of a list that carry the identifier
  \<open>pid\<close>, in the order of the list; the candidates that it does not classify are left out.
\<close>

definition modes_of :: "python \<Rightarrow> place list \<Rightarrow> string \<Rightarrow> mode list" where
  "modes_of py results pid =
     List.map_filter (classify_place py) (filter (\<lambda>p. place_id p = Some pid) results)"

text \<open>
  The same for the response to query \<open>q\<close>; empty when the request failed or the status is
  not \<^verbatim>\<open>OK\<close>.
\<close>

definition classifications ::
  "python \<Rightarrow> (places_params \<Rightarrow> places_response) \<Rightarrow> real \<Rightarrow> real \<Rightarrow> real \<Rightarrow> query_detail \<Rightarrow> string \<Rightarrow> mode list" where
  "classifications py api lat lon rad q pid =
     (case api (make_params lat lon rad q) of
        Request_failed msg \<Rightarrow> []
      | Payload status results \<Rightarrow>
          if status = Some ''OK'' then modes_of py results pid else [])"

subsection \<open>The geocode resolver\<close>

record address_component =
  long_name :: "string option"
  comp_types :: "string list option"

text \<open>
  One element of \<^verbatim>\<open>results\<close>; \<open>hit_location\<close> stands for \<^verbatim>\<open>["geometry"]["location"]\<close>
  with its \<^verbatim>\<open>lat\<close> and \<^verbatim>\<open>lng\<close>. A field that is \<open>None\<close> is a missing key.
\<close>

record geocode_hit =
  hit_location :: "(real \<times> real) option"
  address_components :: "address_component list option"
  hit_formatted_address :: "string option"

text \<open>
  What the geocoding request gives: an exception, or a JSON object with its \<^verbatim>\<open>status\<close>
  and \<^verbatim>\<open>results\<close> (each \<open>None\<close> when the key is missing).
\<close>

datatype geocode_response =
    Geocode_failed string
  | Geocode_payload "string option" "geocode_hit list option"

record location_data =
  geo_latitude :: real
  geo_longitude :: real
  postcode :: string
  formatted_address :: string
  admin_district :: "string option"
  region :: "string option"

text \<open>
  \<^verbatim>\<open>next((comp["long_name"] for comp in address_components if level in comp["types"]), None)\<close>
\<close>

fun find_component :: "string \<Rightarrow> address_component list \<Rightarrow> error + string option" where
  "find_component level [] = Inr None"
| "find_component level (cmp # comps) =
     (case comp_types cmp of
        None \<Rightarrow> Inl (KeyError ''types'')
      | Some ts \<Rightarrow>
          if level \<in> set ts then
            (case long_name cmp of
               None \<Rightarrow> Inl (KeyError ''long_name'')
             | Some n \<Rightarrow> Inr (Some n))
          else find_component level comps)"

text \<open>The branch taken on status \<^verbatim>\<open>OK\<close> with a non-empty \<^verbatim>\<open>results\<close>, on its first element.\<close>

definition extract_location :: "string \<Rightarrow> geocode_hit \<Rightarrow> error + location_data" where
  "extract_location pc hit =
     (case hit_location hit of
        None \<Rightarrow> Inl (KeyError ''geometry'')
      | Some (lat, lng) \<Rightarrow>
          (case address_components hit of
             None \<Rightarrow> Inl (KeyError ''address_components'')
           | Some comps \<Rightarrow>
               (case find_component ''administrative_area_level_2'' comps of
                  Inl e \<Rightarrow> Inl e
                | Inr district \<Rightarrow>
                    (case find_component ''administrative_area_level_1'' comps of
                       Inl e \<Rightarrow> Inl e
                     | Inr reg \<Rightarrow>
                         Inr \<lparr>geo_latitude = lat,
                              geo_longitude = lng,
                              postcode = pc,
                              formatted_address =
                                (case hit_formatted_address hit of None \<Rightarrow> pc | Some a \<Rightarrow> a),
                              admin_district = district,
                              region = reg\<rparr>))))"

text \<open>
  \<^verbatim>\<open>get_google_geocode_data\<close>: \<open>Inl\<close> is the dictionary \<^verbatim>\<open>{"error": message}\<close>, \<open>Inr\<close> the
  location dictionary. \<^verbatim>\<open>data["results"]\<close> is read only when the status is \<^verbatim>\<open>OK\<close>; an
  empty list is false, so the chain goes on to its \<^verbatim>\<open>elif\<close> and \<^verbatim>\<open>else\<close>.
\<close>

definition get_google_geocode_data :: "(string \<Rightarrow> geocode_response) \<Rightarrow> string \<Rightarrow> string + location_data" where
  "get_google_geocode_data api pc =
     (case api pc of
        Geocode_failed msg \<Rightarrow> Inl msg
      | Geocode_payload status results \<Rightarrow>
          (case status of
             None \<Rightarrow> Inl (str_of_error (KeyError ''status''))
           | Some s \<Rightarrow>
               (case (if s = ''OK'' then results else Some []) of
                  None \<Rightarrow> Inl (str_of_error (KeyError ''results''))
                | Some (hit # rest) \<Rightarrow>
                    (case extract_location pc hit of
                       Inl e \<Rightarrow> Inl (str_of_error e)
                     | Inr loc \<Rightarrow> Inr loc)
                | Some [] \<Rightarrow>
                    if s = ''ZERO_RESULTS'' then Inl (''Postcode not found by Google: '' @ pc)
                    else Inl (''Geocoding API returned status: '' @ s))))"

subsection \<open>Grouping and sorting for the details tab\<close>

text \<open>
  The sort key \<^verbatim>\<open>x.get('distance') if x.get('distance') is not None else float('inf')\<close>:
  an integer, or the float infinity, which every integer is below.
\<close>

datatype dist_key = Finite int | Infinity

instantiation dist_key :: linorder
begin

fun less_eq_dist_key :: "dist_key \<Rightarrow> dist_key \<Rightarrow> bool" where
  "less_eq_dist_key (Finite a) (Finite b) = (a \<le> b)"
| "less_eq_dist_key k Infinity = True"
| "less_eq_dist_key Infinity (Finite b) = False"

definition less_dist_key :: "dist_key \<Rightarrow> dist_key \<Rightarrow> bool" where
  "less_dist_key x y = (x \<le> y \<and> \<not> y \<le> x)"

instance
proof
  fix x y z :: dist_key
  show "(x < y) = (x \<le> y \<and> \<not> y \<le> x)" by (simp add: less_dist_key_def)
  show "x \<le> x" by (cases x) simp_all
  show "x \<le> y \<Longrightarrow> y \<le> z \<Longrightarrow> x \<le> z" by (cases x; cases y; cases z) simp_all
  show "x \<le> y \<Longrightarrow> y \<le> x \<Longrightarrow> x = y" by (cases x; cases y) simp_all
  show "x \<le> y \<or> y \<le> x" by (cases x; cases y) auto
qed

end

definition distance_key :: "transport_place \<Rightarrow> dist_key" where
  "distance_key x = (case distance x of Some d \<Rightarrow> Finite d | None \<Rightarrow> Infinity)"

text \<open>
  \<^verbatim>\<open>stations_by_type\<close> after the loop that sorts each group. \<^verbatim>\<open>list.sort\<close> is stable, as
  the insertion sort \<open>sort_key\<close> is. The keys are in the order of
  \<^verbatim>\<open>transport_types_display\<close>.
\<close>

definition stations_by_type :: "transport_place list \<Rightarrow> (mode \<times> transport_place list) list" where
  "stations_by_type members =
     map (\<lambda>pt_key. (pt_key, sort_key distance_key (filter (\<lambda>pl. app_type pl = pt_key) members)))
       [Train_station, Tube_station, Bus_stop, Tram_stop]"

subsection \<open>The page flow of a search\<close>

text \<open>What the page shows after a search.\<close>

datatype page_view =
    Invalid_postcode string
  | Location_error string
  | Transport_error string
  | No_transport_found
  | Station_details "string option" "(mode \<times> transport_place list) list"

text \<open>
  The block run when a search is triggered on a non-empty postcode. The validator
  \<^verbatim>\<open>utils.postcode_validator.validate_postcode\<close> is a parameter. The result is the view, the
  postcodes sent to the geocoding provider and the requests sent to the places provider.
\<close>

definition search ::
  "python \<Rightarrow> (string \<Rightarrow> bool \<times> string \<times> string) \<Rightarrow> (string \<Rightarrow> geocode_response) \<Rightarrow>
   (places_params \<Rightarrow> places_response) \<Rightarrow> string \<Rightarrow> real \<Rightarrow>
   page_view \<times> string list \<times> places_params list" where
  "search py validate_postcode geocode_api places_api active_postcode radius_m =
     (case validate_postcode active_postcode of
        (is_valid, formatted_postcode, error_message) \<Rightarrow>
          if \<not> is_valid then (Invalid_postcode error_message, [], [])
          else
            (case get_google_geocode_data geocode_api formatted_postcode of
               Inl err \<Rightarrow> (Location_error err, [formatted_postcode], [])
             | Inr loc \<Rightarrow>
                 (case get_google_places_data py places_api (geo_latitude loc) (geo_longitude loc)
                         radius_m (Some (geo_latitude loc)) (Some (geo_longitude loc)) of
                    (transport_data, sent) \<Rightarrow>
                      (case (error transport_data, member transport_data) of
                         (Some err, []) \<Rightarrow> (Transport_error err, [formatted_postcode], sent)
                       | (None, []) \<Rightarrow> (No_transport_found, [formatted_postcode], sent)
                       | (warning, m # ms) \<Rightarrow>
                           (Station_details warning (stations_by_type (m # ms)),
                            [formatted_postcode], sent)))))"

subsection \<open>Example data\<close>

text \<open>Concrete candidates and providers on which the theorems below are run.\<close>

definition metrolink_piccadilly :: place where
  "metrolink_piccadilly =
     \<lparr>place_id = Some ''X'', name = Some ''Manchester Metrolink - Piccadilly'',
      types = Some [''light_rail_station'', ''train_station''],
      geometry = Some (53.4774, -2.2309), vicinity = None\<rparr>"

definition corner_shop :: place where
  "corner_shop =
     \<lparr>place_id = Some ''Y'', name = Some ''Corner Shop'', types = Some [''store''],
      geometry = Some (53.4780, -2.2400), vicinity = Some ''1 High Street''\<rparr>"

definition metrolink_elsewhere :: place where
  "metrolink_elsewhere =
     \<lparr>place_id = Some ''X2'', name = Some ''Manchester Metrolink - Piccadilly'',
      types = Some [''light_rail_station'', ''train_station''],
      geometry = Some (53.4800, -2.2400), vicinity = Some ''Station Approach''\<rparr>"

definition tram_entry :: "query_detail \<Rightarrow> string \<Rightarrow> real \<Rightarrow> real \<Rightarrow> string option \<Rightarrow> transport_place" where
  "tram_entry q pid place_lat place_lon vic =
     \<lparr>entry_name = Some ''Manchester Metrolink - Piccadilly'', latitude = place_lat,
      longitude = place_lon, app_type = Tram_stop, description = vic, google_place_id = pid,
      distance = None, google_types = [''light_rail_station'', ''train_station''],
      debug_query_source = q\<rparr>"

definition bank_station :: place where
  "bank_station =
     \<lparr>place_id = Some ''B'', name = Some ''Bank'',
      types = Some [''train_station'', ''subway_station''],
      geometry = Some (51.5133, -0.0886), vicinity = None\<rparr>"

definition shudehill :: place where
  "shudehill =
     \<lparr>place_id = Some ''S'', name = Some ''Shudehill'',
      types = Some [''train_station'', ''light_rail_station''],
      geometry = Some (53.4853, -2.2390), vicinity = None\<rparr>"

definition market_street_tram :: place where
  "market_street_tram =
     \<lparr>place_id = Some ''M'', name = Some ''Market Street TRAM Stop'',
      types = Some [''transit_station''],
      geometry = Some (53.4819, -2.2388), vicinity = None\<rparr>"

definition tramway_halt :: place where
  "tramway_halt =
     \<lparr>place_id = Some ''T'', name = Some ''Tramway Halt'',
      types = Some [''train_station'', ''bus_station''],
      geometry = Some (53.4000, -2.2000), vicinity = None\<rparr>"

definition stop_b :: place where
  "stop_b =
     \<lparr>place_id = Some ''P'', name = Some ''Stop B'',
      types = Some [''bus_stop''],
      geometry = Some (53.4810, -2.2410), vicinity = None\<rparr>"

definition zero_results_geocoder :: "string \<Rightarrow> geocode_response" where
  "zero_results_geocoder pc = Geocode_payload (Some ''ZERO_RESULTS'') (Some [])"

definition empty_ok_geocoder :: "string \<Rightarrow> geocode_response" where
  "empty_ok_geocoder pc = Geocode_payload (Some ''OK'') (Some [])"

definition accept_postcode :: "string \<Rightarrow> bool \<times> string \<times> string" where
  "accept_postcode pc = (True, pc, [])"

definition no_places_api :: "places_params \<Rightarrow> places_response" where
  "no_places_api params = Payload (Some ''ZERO_RESULTS'') []"

definition bus_stop_at :: "string \<Rightarrow> int option \<Rightarrow> transport_place" where
  "bus_stop_at pid dval =
     \<lparr>entry_name = Some ''Stop'', latitude = 53.48, longitude = -2.24, app_type = Bus_stop,
      description = None, google_place_id = pid, distance = dval,
      google_types = [''bus_stop''], debug_query_source = Keyword ''bus stop''\<rparr>"

definition piccadilly_as_train :: place where
  "piccadilly_as_train =
     \<lparr>place_id = Some ''X'', name = Some ''Piccadilly'', types = Some [''train_station''],
      geometry = Some (53.4774, -2.2309), vicinity = None\<rparr>"

definition piccadilly_as_tram :: place where
  "piccadilly_as_tram =
     \<lparr>place_id = Some ''X'', name = Some ''Piccadilly'', types = Some [''light_rail_station''],
      geometry = Some (53.4774, -2.2309), vicinity = None\<rparr>"

definition duplicate_api :: "places_params \<Rightarrow> places_response" where
  "duplicate_api params =
     (if detail params = Type ''train_station'' then Payload (Some ''OK'') [piccadilly_as_train]
      else if detail params = Type ''light_rail_station'' then Payload (Some ''OK'') [piccadilly_as_tram]
      else Payload (Some ''ZERO_RESULTS'') [])"

definition piccadilly_entry :: transport_place where
  "piccadilly_entry =
     \<lparr>entry_name = Some ''Piccadilly'', latitude = 53.4774, longitude = -2.2309,
      app_type = Train_station, description = None, google_place_id = ''X'', distance = None,
      google_types = [''train_station''], debug_query_source = Type ''train_station''\<rparr>"

definition denied_api :: "places_params \<Rightarrow> places_response" where
  "denied_api params =
     (if detail params = Type ''subway_station''
      then Payload (Some ''REQUEST_DENIED'') [metrolink_piccadilly]
      else duplicate_api params)"

definition no_geometry_place :: place where
  "no_geometry_place =
     \<lparr>place_id = Some ''Z'', name = Some ''Victoria'', types = Some [''train_station''],
      geometry = None, vicinity = None\<rparr>"

definition malformed_api :: "places_params \<Rightarrow> places_response" where
  "malformed_api params =
     (if detail params = Type ''train_station''
      then Payload (Some ''OK'') [piccadilly_as_train, no_geometry_place]
      else Payload (Some ''ZERO_RESULTS'') [])"

definition timeout_api :: "places_params \<Rightarrow> places_response" where
  "timeout_api params = Request_failed ''Read timed out.''"

definition no_status_api :: "places_params \<Rightarrow> places_response" where
  "no_status_api params = Payload None []"

definition greenwich_stop :: place where
  "greenwich_stop =
     \<lparr>place_id = Some ''G'', name = Some ''Royal Observatory (Stop A)'',
      types = Some [''bus_stop'', ''transit_station''],
      geometry = Some (51.4780, 0.0012), vicinity = Some ''Blackheath Avenue''\<rparr>"

definition meridian_api :: "places_params \<Rightarrow> places_response" where
  "meridian_api params =
     (if detail params = Keyword ''bus stop'' then Payload (Some ''OK'') [greenwich_stop]
      else Payload (Some ''ZERO_RESULTS'') [])"

subsection \<open>Theorems on classification\<close>

text \<open>\<open>str_contains\<close> is the occurrence of a contiguous block.\<close>

lemma str_contains_iff: "str_contains sub s \<longleftrightarrow> (\<exists>ps ss. s = ps @ sub @ ss)"
  by (induction s) (auto simp add: prefix_def Cons_eq_append_conv)

lemma first_match_spec_rules: "first_match spec_rules n ts = classify n ts"
  by (simp add: spec_rules_def classify_def)

lemma classify_metrolink: "str_contains ''metrolink'' n \<Longrightarrow> classify n ts = Some Tram_stop"
  by (simp add: classify_def)

lemma process_place_eq:
  assumes "place_id p = Some pid" and "pid \<noteq> []" and "pid \<notin> fst ` set d"
    and "geometry p = Some (place_lat, place_lon)"
    and "distance_val py lat lon origin_lat origin_lon place_lat place_lon = Inr dv"
  shows "process_place py q lat lon origin_lat origin_lon p d =
           (case classify (str_lower py (case name p of None \<Rightarrow> [] | Some n \<Rightarrow> n))
                   (case types p of None \<Rightarrow> [] | Some ts \<Rightarrow> ts) of
              None \<Rightarrow> (None, d)
            | Some m \<Rightarrow>
                (None,
                 d @ [(pid,
                       \<lparr>entry_name = name p, latitude = place_lat, longitude = place_lon,
                        app_type = m, description = vicinity p, google_place_id = pid,
                        distance = dv,
                        google_types = (case types p of None \<Rightarrow> [] | Some ts \<Rightarrow> ts),
                        debug_query_source = q\<rparr>)]))"
  using assms
  by (simp add: process_place_def classify_place_def place_name_lower_def place_types_def
        split: option.splits)

text \<open>
  C2: take a candidate that reaches the insertion: it has a non-empty identifier that is not
  yet in the dictionary and a geometry, and computing its distance does not raise. It is
  handled by the six rules of the specification, tried in their order on the lower-cased
  name and on the category tags of the candidate, the first match deciding: it is stored
  with the mode of that rule, and when no rule matches it is discarded and the dictionary
  stays as it is. With "metrolink" in the lower-cased name it is stored as a tram stop
  whatever its category tags are.
\<close>

theorem classify_precedence:
  assumes "place_id p = Some pid" and "pid \<noteq> []" and "pid \<notin> fst ` set d"
    and "geometry p = Some (place_lat, place_lon)"
    and "distance_val py lat lon origin_lat origin_lon place_lat place_lon = Inr dv"
  shows "process_place py q lat lon origin_lat origin_lon p d =
           (case first_match spec_rules
                   (str_lower py (case name p of None \<Rightarrow> [] | Some n \<Rightarrow> n))
                   (case types p of None \<Rightarrow> [] | Some ts \<Rightarrow> ts) of
              None \<Rightarrow> (None, d)
            | Some m \<Rightarrow>
                (None,
                 d @ [(pid,
                       \<lparr>entry_name = name p, latitude = place_lat, longitude = place_lon,
                        app_type = m, description = vicinity p, google_place_id = pid,
                        distance = dv,
                        google_types = (case types p of None \<Rightarrow> [] | Some ts \<Rightarrow> ts),
                        debug_query_source = q\<rparr>)])) \<and>
         length spec_rules = 6 \<and>
         (str_contains ''metrolink'' (str_lower py (case name p of None \<Rightarrow> [] | Some n \<Rightarrow> n)) \<longrightarrow>
            process_place py q lat lon origin_lat origin_lon p d =
              (None,
               d @ [(pid,
                     \<lparr>entry_name = name p, latitude = place_lat, longitude = place_lon,
                      app_type = Tram_stop, description = vicinity p, google_place_id = pid,
                      distance = dv,
                      google_types = (case types p of None \<Rightarrow> [] | Some ts \<Rightarrow> ts),
                      debug_query_source = q\<rparr>)]))"
proof (intro conjI impI)
  show "process_place py q lat lon origin_lat origin_lon p d =
           (case first_match spec_rules
                   (str_lower py (case name p of None \<Rightarrow> [] | Some n \<Rightarrow> n))
                   (case types p of None \<Rightarrow> [] | Some ts \<Rightarrow> ts) of
              None \<Rightarrow> (None, d)
            | Some m \<Rightarrow>
                (None,
                 d @ [(pid,
                       \<lparr>entry_name = name p, latitude = place_lat, longitude = place_lon,
                        app_type = m, description = vicinity p, google_place_id = pid,
                        distance = dv,
                        google_types = (case types p of None \<Rightarrow> [] | Some ts \<Rightarrow> ts),
                        debug_query_source = q\<rparr>)]))"
    unfolding first_match_spec_rules by (rule process_place_eq [OF assms])
  show "length spec_rules = 6" by (simp add: spec_rules_def)
next
  assume "str_contains ''metrolink'' (str_lower py (case name p of None \<Rightarrow> [] | Some n \<Rightarrow> n))"
  then have "classify (str_lower py (case name p of None \<Rightarrow> [] | Some n \<Rightarrow> n))
                   (case types p of None \<Rightarrow> [] | Some ts \<Rightarrow> ts) = Some Tram_stop"
    by (rule classify_metrolink)
  with process_place_eq [OF assms, of q]
  show "process_place py q lat lon origin_lat origin_lon p d =
              (None,
               d @ [(pid,
                     \<lparr>entry_name = name p, latitude = place_lat, longitude = place_lon,
                      app_type = Tram_stop, description = vicinity p, google_place_id = pid,
                      distance = dv,
                      google_types = (case types p of None \<Rightarrow> [] | Some ts \<Rightarrow> ts),
                      debug_query_source = q\<rparr>)])"
    by simp
qed


lemma exact_python_lower: "str_lower exact_python = ascii_lower"
  by (simp add: exact_python_def)

lemma distance_val_no_origin: "distance_val py lat lon None None place_lat place_lon = Inr None"
  by (simp add: distance_val_def truthy_def)

lemma metrolink_piccadilly_fields:
  "place_id metrolink_piccadilly = Some ''X''" "geometry metrolink_piccadilly = Some (53.4774, -2.2309)"
  by (simp_all add: metrolink_piccadilly_def)

lemma metrolink_piccadilly_mode:
  "first_match spec_rules (str_lower exact_python (case name metrolink_piccadilly of None \<Rightarrow> [] | Some n \<Rightarrow> n)) (case types metrolink_piccadilly of None \<Rightarrow> [] | Some ts \<Rightarrow> ts) = Some Tram_stop"
  by (simp add: metrolink_piccadilly_def exact_python_lower ascii_lower_def ascii_lower_char_def spec_rules_def)

lemma bank_station_fields:
  "place_id bank_station = Some ''B''" "geometry bank_station = Some (51.5133, -0.0886)"
  by (simp_all add: bank_station_def)

lemma bank_station_mode:
  "first_match spec_rules (str_lower exact_python (case name bank_station of None \<Rightarrow> [] | Some n \<Rightarrow> n)) (case types bank_station of None \<Rightarrow> [] | Some ts \<Rightarrow> ts) = Some Tube_station"
  by (simp add: bank_station_def exact_python_lower ascii_lower_def ascii_lower_char_def spec_rules_def)

lemma shudehill_fields:
  "place_id shudehill = Some ''S''" "geometry shudehill = Some (53.4853, -2.2390)"
  by (simp_all add: shudehill_def)

lemma shudehill_mode:
  "first_match spec_rules (str_lower exact_python (case name shudehill of None \<Rightarrow> [] | Some n \<Rightarrow> n)) (case types shudehill of None \<Rightarrow> [] | Some ts \<Rightarrow> ts) = Some Tram_stop"
  by (simp add: shudehill_def exact_python_lower ascii_lower_def ascii_lower_char_def spec_rules_def)

lemma market_street_tram_fields:
  "place_id market_street_tram = Some ''M''" "geometry market_street_tram = Some (53.4819, -2.2388)"
  by (simp_all add: market_street_tram_def)

lemma market_street_tram_mode:
  "first_match spec_rules (str_lower exact_python (case name market_street_tram of None \<Rightarrow> [] | Some n \<Rightarrow> n)) (case types market_street_tram of None \<Rightarrow> [] | Some ts \<Rightarrow> ts) = Some Tram_stop"
  by (simp add: market_street_tram_def exact_python_lower ascii_lower_def ascii_lower_char_def spec_rules_def)

lemma tramway_halt_fields:
  "place_id tramway_halt = Some ''T''" "geometry tramway_halt = Some (53.4000, -2.2000)"
  by (simp_all add: tramway_halt_def)

lemma tramway_halt_mode:
  "first_match spec_rules (str_lower exact_python (case name tramway_halt of None \<Rightarrow> [] | Some n \<Rightarrow> n)) (case types tramway_halt of None \<Rightarrow> [] | Some ts \<Rightarrow> ts) = Some Train_station"
  by (simp add: tramway_halt_def exact_python_lower ascii_lower_def ascii_lower_char_def spec_rules_def)

lemma stop_b_fields:
  "place_id stop_b = Some ''P''" "geometry stop_b = Some (53.4810, -2.2410)"
  by (simp_all add: stop_b_def)

lemma stop_b_mode:
  "first_match spec_rules (str_lower exact_python (case name stop_b of None \<Rightarrow> [] | Some n \<Rightarrow> n)) (case types stop_b of None \<Rightarrow> [] | Some ts \<Rightarrow> ts) = Some Bus_stop"
  by (simp add: stop_b_def exact_python_lower ascii_lower_def ascii_lower_char_def spec_rules_def)

lemma corner_shop_fields:
  "place_id corner_shop = Some ''Y''" "geometry corner_shop = Some (53.4780, -2.2400)"
  by (simp_all add: corner_shop_def)

lemma corner_shop_mode:
  "first_match spec_rules (str_lower exact_python (case name corner_shop of None \<Rightarrow> [] | Some n \<Rightarrow> n)) (case types corner_shop of None \<Rightarrow> [] | Some ts \<Rightarrow> ts) = None"
  by (simp add: corner_shop_def exact_python_lower ascii_lower_def ascii_lower_char_def spec_rules_def)

lemma metrolink_piccadilly_contains:
  "str_contains ''metrolink''
     (str_lower exact_python (case name metrolink_piccadilly of None \<Rightarrow> [] | Some n \<Rightarrow> n))"
  by (simp add: metrolink_piccadilly_def exact_python_lower ascii_lower_def ascii_lower_char_def)

theorem classify_precedence_witness:
  "place_id metrolink_piccadilly = Some ''X'' \<and> ''X'' \<noteq> [] \<and>
   ''X'' \<notin> fst ` set ([] :: (string \<times> transport_place) list) \<and>
   geometry metrolink_piccadilly = Some (53.4774, -2.2309) \<and>
   distance_val exact_python 53.48 (-2.24) None None 53.4774 (-2.2309) = Inr None \<and>
   str_contains ''metrolink''
     (str_lower exact_python (case name metrolink_piccadilly of None \<Rightarrow> [] | Some n \<Rightarrow> n)) \<and>
   map (\<lambda>(k, e). (k, app_type e))
     (snd (process_place exact_python (Keyword ''bus stop'') 53.48 (-2.24) None None metrolink_piccadilly [])) = [(''X'', Tram_stop)] \<and>
   map (\<lambda>(k, e). (k, app_type e))
     (snd (process_place exact_python (Keyword ''bus stop'') 53.48 (-2.24) None None bank_station [])) = [(''B'', Tube_station)] \<and>
   map (\<lambda>(k, e). (k, app_type e))
     (snd (process_place exact_python (Keyword ''bus stop'') 53.48 (-2.24) None None shudehill [])) = [(''S'', Tram_stop)] \<and>
   map (\<lambda>(k, e). (k, app_type e))
     (snd (process_place exact_python (Keyword ''bus stop'') 53.48 (-2.24) None None market_street_tram [])) = [(''M'', Tram_stop)] \<and>
   map (\<lambda>(k, e). (k, app_type e))
     (snd (process_place exact_python (Keyword ''bus stop'') 53.48 (-2.24) None None tramway_halt [])) = [(''T'', Train_station)] \<and>
   map (\<lambda>(k, e). (k, app_type e))
     (snd (process_place exact_python (Keyword ''bus stop'') 53.48 (-2.24) None None stop_b [])) = [(''P'', Bus_stop)] \<and>
   map (\<lambda>(k, e). (k, app_type e))
     (snd (process_place exact_python (Keyword ''bus stop'') 53.48 (-2.24) None None corner_shop [])) = []"
proof -
  note t = classify_precedence [where py = exact_python and q = "Keyword ''bus stop''"
      and lat = "53.48" and lon = "-2.24" and origin_lat = None and origin_lon = None
      and d = "[]" and dv = None, OF _ _ _ _ distance_val_no_origin]
  have ne: "pid \<notin> fst ` set ([] :: (string \<times> transport_place) list)" for pid by simp
  have r0: "map (\<lambda>(k, e). (k, app_type e))
     (snd (process_place exact_python (Keyword ''bus stop'') 53.48 (-2.24) None None metrolink_piccadilly [])) = [(''X'', Tram_stop)]"
    using t [OF metrolink_piccadilly_fields(1) _ ne metrolink_piccadilly_fields(2)] unfolding metrolink_piccadilly_mode by simp
  have r1: "map (\<lambda>(k, e). (k, app_type e))
     (snd (process_place exact_python (Keyword ''bus stop'') 53.48 (-2.24) None None bank_station [])) = [(''B'', Tube_station)]"
    using t [OF bank_station_fields(1) _ ne bank_station_fields(2)] unfolding bank_station_mode by simp
  have r2: "map (\<lambda>(k, e). (k, app_type e))
     (snd (process_place exact_python (Keyword ''bus stop'') 53.48 (-2.24) None None shudehill [])) = [(''S'', Tram_stop)]"
    using t [OF shudehill_fields(1) _ ne shudehill_fields(2)] unfolding shudehill_mode by simp
  have r3: "map (\<lambda>(k, e). (k, app_type e))
     (snd (process_place exact_python (Keyword ''bus stop'') 53.48 (-2.24) None None market_street_tram [])) = [(''M'', Tram_stop)]"
    using t [OF market_street_tram_fields(1) _ ne market_street_tram_fields(2)] unfolding market_street_tram_mode by simp
  have r4: "map (\<lambda>(k, e). (k, app_type e))
     (snd (process_place exact_python (Keyword ''bus stop'') 53.48 (-2.24) None None tramway_halt [])) = [(''T'', Train_station)]"
    using t [OF tramway_halt_fields(1) _ ne tramway_halt_fields(2)] unfolding tramway_halt_mode by simp
  have r5: "map (\<lambda>(k, e). (k, app_type e))
     (snd (process_place exact_python (Keyword ''bus stop'') 53.48 (-2.24) None None stop_b [])) = [(''P'', Bus_stop)]"
    using t [OF stop_b_fields(1) _ ne stop_b_fields(2)] unfolding stop_b_mode by simp
  have r6: "map (\<lambda>(k, e). (k, app_type e))
     (snd (process_place exact_python (Keyword ''bus stop'') 53.48 (-2.24) None None corner_shop [])) = []"
    using t [OF corner_shop_fields(1) _ ne corner_shop_fields(2)] unfolding corner_shop_mode by simp
  show ?thesis
    using metrolink_piccadilly_fields metrolink_piccadilly_contains
      distance_val_no_origin [of exact_python "53.48" "-2.24" "53.4774" "-2.2309"]
      r0 r1 r2 r3 r4 r5 r6
    by simp
qed


lemma process_place_outcome:
  "snd (process_place py q lat lon origin_lat origin_lon p d) = d \<or>
   (\<exists>pid e. snd (process_place py q lat lon origin_lat origin_lon p d) = d @ [(pid, e)] \<and>
      Some (app_type e) =
        classify (str_lower py (case name p of None \<Rightarrow> [] | Some n \<Rightarrow> n))
          (case types p of None \<Rightarrow> [] | Some ts \<Rightarrow> ts))"
  by (simp add: process_place_def classify_place_def place_name_lower_def place_types_def
        split: option.splits sum.splits)

lemma process_place_unclassified:
  "classify (str_lower py (case name p of None \<Rightarrow> [] | Some n \<Rightarrow> n))
     (case types p of None \<Rightarrow> [] | Some ts \<Rightarrow> ts) = None \<Longrightarrow>
   process_place py q lat lon origin_lat origin_lon p d = (None, d)"
  by (simp add: process_place_def classify_place_def place_name_lower_def place_types_def
        split: option.splits)

lemma classify_no_rule:
  assumes "\<not> str_contains ''metrolink'' n" "\<not> str_contains ''tram'' n"
    and "''subway_station'' \<notin> set ts" "''light_rail_station'' \<notin> set ts"
    "''train_station'' \<notin> set ts" "''bus_station'' \<notin> set ts" "''bus_stop'' \<notin> set ts"
  shows "classify n ts = None"
  using assms by (simp only: classify_def if_False simp_thms)

text \<open>
  C10: take two candidates with the same name and the same category tags, processed in any
  two runs: under any queries, coordinates, origins and dictionaries. Each run leaves its
  dictionary as it is or appends one entry; an entry that is appended has the mode that the
  chain gives to the name and the tags, so both runs store the same mode; and when the chain
  gives none, both runs discard the candidate. A candidate with none of the recognised
  category tags and with neither "metrolink" nor "tram" in its name is discarded also when
  the keyword query "bus stop" returned it.
\<close>

theorem classification_independent_of_query:
  assumes "name p1 = name p2" and "types p1 = types p2"
  shows
  "(snd (process_place py q1 lat1 lon1 origin_lat1 origin_lon1 p1 d1) = d1 \<or>
      (\<exists>pid e. snd (process_place py q1 lat1 lon1 origin_lat1 origin_lon1 p1 d1) = d1 @ [(pid, e)])) \<and>
   (snd (process_place py q2 lat2 lon2 origin_lat2 origin_lon2 p2 d2) = d2 \<or>
      (\<exists>pid e. snd (process_place py q2 lat2 lon2 origin_lat2 origin_lon2 p2 d2) = d2 @ [(pid, e)])) \<and>
   (snd (process_place py q1 lat1 lon1 origin_lat1 origin_lon1 p1 d1) = d1 @ [(pid1, e1)] \<longrightarrow>
      Some (app_type e1) =
        classify (str_lower py (case name p1 of None \<Rightarrow> [] | Some n \<Rightarrow> n))
              (case types p1 of None \<Rightarrow> [] | Some ts \<Rightarrow> ts)) \<and>
   (snd (process_place py q2 lat2 lon2 origin_lat2 origin_lon2 p2 d2) = d2 @ [(pid2, e2)] \<longrightarrow>
      Some (app_type e2) =
        classify (str_lower py (case name p1 of None \<Rightarrow> [] | Some n \<Rightarrow> n))
              (case types p1 of None \<Rightarrow> [] | Some ts \<Rightarrow> ts)) \<and>
   (classify (str_lower py (case name p1 of None \<Rightarrow> [] | Some n \<Rightarrow> n))
              (case types p1 of None \<Rightarrow> [] | Some ts \<Rightarrow> ts) = None \<longrightarrow>
      process_place py q1 lat1 lon1 origin_lat1 origin_lon1 p1 d1 = (None, d1) \<and>
      process_place py q2 lat2 lon2 origin_lat2 origin_lon2 p2 d2 = (None, d2)) \<and>
   (\<not> str_contains ''metrolink'' (str_lower py (case name p1 of None \<Rightarrow> [] | Some n \<Rightarrow> n)) \<and>
    \<not> str_contains ''tram'' (str_lower py (case name p1 of None \<Rightarrow> [] | Some n \<Rightarrow> n)) \<and>
    ''subway_station'' \<notin> set (case types p1 of None \<Rightarrow> [] | Some ts \<Rightarrow> ts) \<and>
    ''light_rail_station'' \<notin> set (case types p1 of None \<Rightarrow> [] | Some ts \<Rightarrow> ts) \<and>
    ''train_station'' \<notin> set (case types p1 of None \<Rightarrow> [] | Some ts \<Rightarrow> ts) \<and>
    ''bus_station'' \<notin> set (case types p1 of None \<Rightarrow> [] | Some ts \<Rightarrow> ts) \<and>
    ''bus_stop'' \<notin> set (case types p1 of None \<Rightarrow> [] | Some ts \<Rightarrow> ts)
    \<longrightarrow> process_place py (Keyword ''bus stop'') lat1 lon1 origin_lat1 origin_lon1 p1 d1 = (None, d1))"
proof -
  note o1 = process_place_outcome [of py q1 lat1 lon1 origin_lat1 origin_lon1 p1 d1]
  note o2 = process_place_outcome [of py q2 lat2 lon2 origin_lat2 origin_lon2 p2 d2,
      folded assms]
  note u1 = process_place_unclassified [of py p1 q1 lat1 lon1 origin_lat1 origin_lon1 d1]
  note u2 = process_place_unclassified [of py p2 q2 lat2 lon2 origin_lat2 origin_lon2 d2,
      folded assms]
  have b: "process_place py (Keyword ''bus stop'') lat1 lon1 origin_lat1 origin_lon1 p1 d1 = (None, d1)"
    if "\<not> str_contains ''metrolink'' (str_lower py (case name p1 of None \<Rightarrow> [] | Some n \<Rightarrow> n)) \<and>
    \<not> str_contains ''tram'' (str_lower py (case name p1 of None \<Rightarrow> [] | Some n \<Rightarrow> n)) \<and>
    ''subway_station'' \<notin> set (case types p1 of None \<Rightarrow> [] | Some ts \<Rightarrow> ts) \<and>
    ''light_rail_station'' \<notin> set (case types p1 of None \<Rightarrow> [] | Some ts \<Rightarrow> ts) \<and>
    ''train_station'' \<notin> set (case types p1 of None \<Rightarrow> [] | Some ts \<Rightarrow> ts) \<and>
    ''bus_station'' \<notin> set (case types p1 of None \<Rightarrow> [] | Some ts \<Rightarrow> ts) \<and>
    ''bus_stop'' \<notin> set (case types p1 of None \<Rightarrow> [] | Some ts \<Rightarrow> ts)"
  proof -
    from that have "classify (str_lower py (case name p1 of None \<Rightarrow> [] | Some n \<Rightarrow> n))
        (case types p1 of None \<Rightarrow> [] | Some ts \<Rightarrow> ts) = None"
      by (elim conjE) (rule classify_no_rule)
    then show ?thesis by (rule process_place_unclassified)
  qed
  show ?thesis
  proof (intro conjI impI)
    show "snd (process_place py q1 lat1 lon1 origin_lat1 origin_lon1 p1 d1) = d1 \<or>
      (\<exists>pid e. snd (process_place py q1 lat1 lon1 origin_lat1 origin_lon1 p1 d1) = d1 @ [(pid, e)])"
      using o1 by blast
    show "snd (process_place py q2 lat2 lon2 origin_lat2 origin_lon2 p2 d2) = d2 \<or>
      (\<exists>pid e. snd (process_place py q2 lat2 lon2 origin_lat2 origin_lon2 p2 d2) = d2 @ [(pid, e)])"
      using o2 by blast
  next
    assume "snd (process_place py q1 lat1 lon1 origin_lat1 origin_lon1 p1 d1) = d1 @ [(pid1, e1)]"
    with o1 show "Some (app_type e1) =
        classify (str_lower py (case name p1 of None \<Rightarrow> [] | Some n \<Rightarrow> n))
              (case types p1 of None \<Rightarrow> [] | Some ts \<Rightarrow> ts)"
      by auto
  next
    assume "snd (process_place py q2 lat2 lon2 origin_lat2 origin_lon2 p2 d2) = d2 @ [(pid2, e2)]"
    with o2 show "Some (app_type e2) =
        classify (str_lower py (case name p1 of None \<Rightarrow> [] | Some n \<Rightarrow> n))
              (case types p1 of None \<Rightarrow> [] | Some ts \<Rightarrow> ts)"
      by auto
  next
    assume n: "classify (str_lower py (case name p1 of None \<Rightarrow> [] | Some n \<Rightarrow> n))
              (case types p1 of None \<Rightarrow> [] | Some ts \<Rightarrow> ts) = None"
    from u1 [OF n] show "process_place py q1 lat1 lon1 origin_lat1 origin_lon1 p1 d1 = (None, d1)" .
    from u2 [OF n] show "process_place py q2 lat2 lon2 origin_lat2 origin_lon2 p2 d2 = (None, d2)" .
  next
    assume "\<not> str_contains ''metrolink'' (str_lower py (case name p1 of None \<Rightarrow> [] | Some n \<Rightarrow> n)) \<and>
    \<not> str_contains ''tram'' (str_lower py (case name p1 of None \<Rightarrow> [] | Some n \<Rightarrow> n)) \<and>
    ''subway_station'' \<notin> set (case types p1 of None \<Rightarrow> [] | Some ts \<Rightarrow> ts) \<and>
    ''light_rail_station'' \<notin> set (case types p1 of None \<Rightarrow> [] | Some ts \<Rightarrow> ts) \<and>
    ''train_station'' \<notin> set (case types p1 of None \<Rightarrow> [] | Some ts \<Rightarrow> ts) \<and>
    ''bus_station'' \<notin> set (case types p1 of None \<Rightarrow> [] | Some ts \<Rightarrow> ts) \<and>
    ''bus_stop'' \<notin> set (case types p1 of None \<Rightarrow> [] | Some ts \<Rightarrow> ts)"
    then show "process_place py (Keyword ''bus stop'') lat1 lon1 origin_lat1 origin_lon1 p1 d1 = (None, d1)"
      by (rule b)
  qed
qed


lemma metrolink_elsewhere_fields:
  "place_id metrolink_elsewhere = Some ''X2''" "geometry metrolink_elsewhere = Some (53.4800, -2.2400)"
  "name metrolink_piccadilly = name metrolink_elsewhere"
  "types metrolink_piccadilly = types metrolink_elsewhere"
  by (simp_all add: metrolink_elsewhere_def metrolink_piccadilly_def)

lemma metrolink_elsewhere_mode:
  "classify (str_lower exact_python (case name metrolink_elsewhere of None \<Rightarrow> [] | Some n \<Rightarrow> n))
     (case types metrolink_elsewhere of None \<Rightarrow> [] | Some ts \<Rightarrow> ts) = Some Tram_stop"
  by (simp add: metrolink_elsewhere_def exact_python_lower ascii_lower_def ascii_lower_char_def
        classify_def)

lemma metrolink_run_first:
  "process_place exact_python (Type ''light_rail_station'') 53.48 (-2.24) None None
          metrolink_piccadilly [] =
     (None, [] @ [(''X'', tram_entry (Type ''light_rail_station'') ''X'' 53.4774 (-2.2309) None)])"
  using process_place_eq [where py = exact_python and q = "Type ''light_rail_station''"
      and d = "[]" and p = metrolink_piccadilly,
      OF metrolink_piccadilly_fields(1) _ _ metrolink_piccadilly_fields(2) distance_val_no_origin]
  unfolding metrolink_piccadilly_mode [unfolded first_match_spec_rules]
  by (simp add: tram_entry_def metrolink_piccadilly_def)

lemma metrolink_run_second:
  "process_place exact_python (Keyword ''Metrolink station'') 51.5 0 None None
          metrolink_elsewhere [(''X'', tram_entry (Type ''light_rail_station'') ''X'' 53.4774 (-2.2309) None)] =
     (None, [(''X'', tram_entry (Type ''light_rail_station'') ''X'' 53.4774 (-2.2309) None)] @
            [(''X2'', tram_entry (Keyword ''Metrolink station'') ''X2'' 53.4800 (-2.2400) (Some ''Station Approach''))])"
  using process_place_eq [where py = exact_python and q = "Keyword ''Metrolink station''"
      and d = "[(''X'', tram_entry (Type ''light_rail_station'') ''X'' 53.4774 (-2.2309) None)]"
      and p = metrolink_elsewhere,
      OF metrolink_elsewhere_fields(1) _ _ metrolink_elsewhere_fields(2) distance_val_no_origin]
  unfolding metrolink_elsewhere_mode
  by (simp add: tram_entry_def metrolink_elsewhere_def)

lemma corner_shop_no_rule:
  "\<not> str_contains ''metrolink'' (str_lower exact_python (case name corner_shop of None \<Rightarrow> [] | Some n \<Rightarrow> n)) \<and>
   \<not> str_contains ''tram'' (str_lower exact_python (case name corner_shop of None \<Rightarrow> [] | Some n \<Rightarrow> n)) \<and>
   ''subway_station'' \<notin> set (case types corner_shop of None \<Rightarrow> [] | Some ts \<Rightarrow> ts) \<and>
   ''light_rail_station'' \<notin> set (case types corner_shop of None \<Rightarrow> [] | Some ts \<Rightarrow> ts) \<and>
   ''train_station'' \<notin> set (case types corner_shop of None \<Rightarrow> [] | Some ts \<Rightarrow> ts) \<and>
   ''bus_station'' \<notin> set (case types corner_shop of None \<Rightarrow> [] | Some ts \<Rightarrow> ts) \<and>
   ''bus_stop'' \<notin> set (case types corner_shop of None \<Rightarrow> [] | Some ts \<Rightarrow> ts)"
  by (simp add: corner_shop_def exact_python_lower ascii_lower_def ascii_lower_char_def)

theorem classification_independent_of_query_witness:
  "name metrolink_piccadilly = name metrolink_elsewhere \<and>
   types metrolink_piccadilly = types metrolink_elsewhere \<and>
   snd (process_place exact_python (Type ''light_rail_station'') 53.48 (-2.24) None None
          metrolink_piccadilly []) =
     [] @ [(''X'', tram_entry (Type ''light_rail_station'') ''X'' 53.4774 (-2.2309) None)] \<and>
   snd (process_place exact_python (Keyword ''Metrolink station'') 51.5 0 None None
          metrolink_elsewhere [(''X'', tram_entry (Type ''light_rail_station'') ''X'' 53.4774 (-2.2309) None)]) =
     [(''X'', tram_entry (Type ''light_rail_station'') ''X'' 53.4774 (-2.2309) None)] @
       [(''X2'', tram_entry (Keyword ''Metrolink station'') ''X2'' 53.4800 (-2.2400) (Some ''Station Approach''))] \<and>
   app_type (tram_entry (Type ''light_rail_station'') ''X'' 53.4774 (-2.2309) None) =
     app_type (tram_entry (Keyword ''Metrolink station'') ''X2'' 53.4800 (-2.2400) (Some ''Station Approach'')) \<and>
   classify (str_lower exact_python (case name corner_shop of None \<Rightarrow> [] | Some n \<Rightarrow> n))
     (case types corner_shop of None \<Rightarrow> [] | Some ts \<Rightarrow> ts) = None \<and>
   \<not> str_contains ''metrolink'' (str_lower exact_python (case name corner_shop of None \<Rightarrow> [] | Some n \<Rightarrow> n)) \<and>
   \<not> str_contains ''tram'' (str_lower exact_python (case name corner_shop of None \<Rightarrow> [] | Some n \<Rightarrow> n)) \<and>
   ''subway_station'' \<notin> set (case types corner_shop of None \<Rightarrow> [] | Some ts \<Rightarrow> ts) \<and>
   ''light_rail_station'' \<notin> set (case types corner_shop of None \<Rightarrow> [] | Some ts \<Rightarrow> ts) \<and>
   ''train_station'' \<notin> set (case types corner_shop of None \<Rightarrow> [] | Some ts \<Rightarrow> ts) \<and>
   ''bus_station'' \<notin> set (case types corner_shop of None \<Rightarrow> [] | Some ts \<Rightarrow> ts) \<and>
   ''bus_stop'' \<notin> set (case types corner_shop of None \<Rightarrow> [] | Some ts \<Rightarrow> ts) \<and>
   process_place exact_python (Keyword ''bus stop'') 53.48 (-2.24) None None corner_shop [] = (None, []) \<and>
   process_place exact_python (Type ''bus_station'') 51.5 0 (Some 51.5) None corner_shop
     [(''X'', tram_entry (Type ''light_rail_station'') ''X'' 53.4774 (-2.2309) None)] =
     (None, [(''X'', tram_entry (Type ''light_rail_station'') ''X'' 53.4774 (-2.2309) None)])"
proof -
  note a = classification_independent_of_query
    [where py = exact_python and ?p1.0 = metrolink_piccadilly and ?p2.0 = metrolink_elsewhere
      and ?q1.0 = "Type ''light_rail_station''" and ?q2.0 = "Keyword ''Metrolink station''"
      and ?lat1.0 = "53.48" and ?lon1.0 = "-2.24" and ?lat2.0 = "51.5" and ?lon2.0 = 0
      and ?origin_lat1.0 = None and ?origin_lon1.0 = None
      and ?origin_lat2.0 = None and ?origin_lon2.0 = None
      and ?d1.0 = "[]" and ?d2.0 = "[(''X'', tram_entry (Type ''light_rail_station'') ''X'' 53.4774 (-2.2309) None)]"
      and ?pid1.0 = "''X''" and ?e1.0 = "tram_entry (Type ''light_rail_station'') ''X'' 53.4774 (-2.2309) None"
      and ?pid2.0 = "''X2''" and ?e2.0 = "tram_entry (Keyword ''Metrolink station'') ''X2'' 53.4800 (-2.2400) (Some ''Station Approach'')",
      OF metrolink_elsewhere_fields(3,4)]
  note b = classification_independent_of_query
    [where py = exact_python and ?p1.0 = corner_shop and ?p2.0 = corner_shop
      and ?q1.0 = "Keyword ''bus stop''" and ?q2.0 = "Type ''bus_station''"
      and ?lat1.0 = "53.48" and ?lon1.0 = "-2.24" and ?lat2.0 = "51.5" and ?lon2.0 = 0
      and ?origin_lat1.0 = None and ?origin_lon1.0 = None
      and ?origin_lat2.0 = "Some 51.5" and ?origin_lon2.0 = None
      and ?d1.0 = "[]" and ?d2.0 = "[(''X'', tram_entry (Type ''light_rail_station'') ''X'' 53.4774 (-2.2309) None)]",
      OF refl refl]
  have ra: "snd (process_place exact_python (Type ''light_rail_station'') 53.48 (-2.24) None None
          metrolink_piccadilly []) =
     [] @ [(''X'', tram_entry (Type ''light_rail_station'') ''X'' 53.4774 (-2.2309) None)]"
    unfolding metrolink_run_first by simp
  have rb: "snd (process_place exact_python (Keyword ''Metrolink station'') 51.5 0 None None
          metrolink_elsewhere [(''X'', tram_entry (Type ''light_rail_station'') ''X'' 53.4774 (-2.2309) None)]) =
     [(''X'', tram_entry (Type ''light_rail_station'') ''X'' 53.4774 (-2.2309) None)] @
       [(''X2'', tram_entry (Keyword ''Metrolink station'') ''X2'' 53.4800 (-2.2400) (Some ''Station Approach''))]"
    unfolding metrolink_run_second by simp
  from a ra rb have m: "app_type (tram_entry (Type ''light_rail_station'') ''X'' 53.4774 (-2.2309) None) =
     app_type (tram_entry (Keyword ''Metrolink station'') ''X2'' 53.4800 (-2.2400) (Some ''Station Approach''))"
    by (metis option.inject)
  have c: "classify (str_lower exact_python (case name corner_shop of None \<Rightarrow> [] | Some n \<Rightarrow> n))
     (case types corner_shop of None \<Rightarrow> [] | Some ts \<Rightarrow> ts) = None"
    using corner_shop_mode unfolding first_match_spec_rules .
  from b c have d: "process_place exact_python (Keyword ''bus stop'') 53.48 (-2.24) None None corner_shop [] = (None, [])"
    "process_place exact_python (Type ''bus_station'') 51.5 0 (Some 51.5) None corner_shop
     [(''X'', tram_entry (Type ''light_rail_station'') ''X'' 53.4774 (-2.2309) None)] =
     (None, [(''X'', tram_entry (Type ''light_rail_station'') ''X'' 53.4774 (-2.2309) None)])"
    by blast+
  show ?thesis
    using metrolink_elsewhere_fields(3,4) ra rb m c corner_shop_no_rule d by blast
qed

subsection \<open>Theorems on the aggregator\<close>

lemma process_place_spec:
  assumes "process_place py q lat lon origin_lat origin_lon p d = (r, d')"
  shows "(d' = d \<and>
          (r = None \<longrightarrow>
             place_id p = None \<or> place_id p = Some [] \<or> classify_place py p = None \<or>
             (\<exists>pid. place_id p = Some pid \<and> pid \<in> fst ` set d))) \<or>
         (r = None \<and>
          (\<exists>pid e. d' = d @ [(pid, e)] \<and> place_id p = Some pid \<and> pid \<noteq> [] \<and>
             pid \<notin> fst ` set d \<and> google_place_id e = pid \<and> debug_query_source e = q \<and>
             classify_place py p = Some (app_type e)))"
  using assms
  by (auto simp add: process_place_def split: option.splits if_splits prod.splits sum.splits)

lemma modes_of_Cons:
  "modes_of py (p # ps) pid =
     (if place_id p = Some pid
      then (case classify_place py p of
              None \<Rightarrow> modes_of py ps pid
            | Some t \<Rightarrow> t # modes_of py ps pid)
      else modes_of py ps pid)"
  by (simp add: modes_of_def split: option.splits)

lemma process_results_spec:
  assumes "process_results py q lat lon origin_lat origin_lon rs d = (r, d')"
  shows "\<exists>new. d' = d @ new \<and> distinct (map fst new) \<and> fst ` set new \<inter> fst ` set d = {} \<and>
           (\<forall>(pid, e) \<in> set new. pid \<noteq> [] \<and> google_place_id e = pid \<and>
              debug_query_source e = q \<and>
              modes_of py rs pid \<noteq> [] \<and> hd (modes_of py rs pid) = app_type e) \<and>
           (r = None \<longrightarrow>
              (\<forall>pid. pid \<noteq> [] \<and> modes_of py rs pid \<noteq> [] \<longrightarrow> pid \<in> fst ` set d'))"
  using assms
proof (induction rs arbitrary: d)
  case Nil
  then show ?case by (simp add: modes_of_def)
next
  case (Cons p ps)
  obtain r1 d1 where step: "process_place py q lat lon origin_lat origin_lon p d = (r1, d1)"
    by (cases "process_place py q lat lon origin_lat origin_lon p d") auto
  note sp = process_place_spec [OF step]
  show ?case
  proof (cases r1)
    case (Some e)
    with step Cons.prems have "r = Some e" "d' = d1" by simp_all
    moreover from sp Some have "d1 = d" by auto
    ultimately show ?thesis by simp
  next
    case None
    with step Cons.prems have rest: "process_results py q lat lon origin_lat origin_lon ps d1 = (r, d')"
      by simp
    from Cons.IH [OF rest] obtain new where IH:
      "d' = d1 @ new \<and> distinct (map fst new) \<and> fst ` set new \<inter> fst ` set d1 = {} \<and>
           (\<forall>(pid, e) \<in> set new. pid \<noteq> [] \<and> google_place_id e = pid \<and>
              debug_query_source e = q \<and>
              modes_of py ps pid \<noteq> [] \<and> hd (modes_of py ps pid) = app_type e) \<and>
           (r = None \<longrightarrow>
              (\<forall>pid. pid \<noteq> [] \<and> modes_of py ps pid \<noteq> [] \<longrightarrow> pid \<in> fst ` set d'))" ..
    then have new: "d' = d1 @ new" "distinct (map fst new)" "fst ` set new \<inter> fst ` set d1 = {}"
      by simp_all
    have ent: "pid \<noteq> [] \<and> google_place_id e = pid \<and>
              debug_query_source e = q \<and>
              modes_of py ps pid \<noteq> [] \<and> hd (modes_of py ps pid) = app_type e"
      if "(pid, e) \<in> set new" for pid e
      using IH that by auto
    have comp: "pid \<in> fst ` set d'" if "r = None" "pid \<noteq> []" "modes_of py ps pid \<noteq> []" for pid
      using IH that by blast
    have fresh: "pid \<notin> fst ` set d1" if "(pid, e) \<in> set new" for pid e
    proof -
      from that have "pid \<in> fst ` set new" by force
      with new(3) show ?thesis by blast
    qed
    from sp None consider
      (same) "d1 = d" "place_id p = None \<or> place_id p = Some [] \<or> classify_place py p = None \<or>
             (\<exists>pid. place_id p = Some pid \<and> pid \<in> fst ` set d)"
      | (ins) pid0 e0 where "d1 = d @ [(pid0, e0)]" "place_id p = Some pid0" "pid0 \<noteq> []"
             "pid0 \<notin> fst ` set d" "google_place_id e0 = pid0" "debug_query_source e0 = q"
             "classify_place py p = Some (app_type e0)"
      by blast
    then show ?thesis
    proof cases
      case same
      have keep: "modes_of py (p # ps) pid = modes_of py ps pid"
        if "pid \<noteq> []" "pid \<notin> fst ` set d" for pid
        using same(2) that by (force simp add: modes_of_Cons)
      have "d' = d @ new" using new(1) same(1) by simp
      moreover have "fst ` set new \<inter> fst ` set d = {}" using new(3) same(1) by simp
      moreover have "\<forall>(pid, e) \<in> set new. pid \<noteq> [] \<and> google_place_id e = pid \<and>
              debug_query_source e = q \<and>
              modes_of py (p # ps) pid \<noteq> [] \<and> hd (modes_of py (p # ps) pid) = app_type e"
      proof (clarify)
        fix pid e assume m: "(pid, e) \<in> set new"
        from fresh [OF m] same(1) have "pid \<notin> fst ` set d" by simp
        with ent [OF m] keep [of pid]
        show "pid \<noteq> [] \<and> google_place_id e = pid \<and>
              debug_query_source e = q \<and>
              modes_of py (p # ps) pid \<noteq> [] \<and> hd (modes_of py (p # ps) pid) = app_type e"
          by simp
      qed
      moreover have "r = None \<longrightarrow>
              (\<forall>pid. pid \<noteq> [] \<and> modes_of py (p # ps) pid \<noteq> [] \<longrightarrow> pid \<in> fst ` set d')"
      proof (intro impI allI)
        fix pid assume r: "r = None" and h: "pid \<noteq> [] \<and> modes_of py (p # ps) pid \<noteq> []"
        show "pid \<in> fst ` set d'"
        proof (cases "pid \<in> fst ` set d")
          case True
          then show ?thesis using new(1) same(1) by auto
        next
          case False
          with h keep [of pid] have "modes_of py ps pid \<noteq> []" by simp
          with comp [OF r] h show ?thesis by simp
        qed
      qed
      ultimately show ?thesis using new(2) by blast
    next
      case ins
      have other: "modes_of py (p # ps) pid = modes_of py ps pid" if "pid \<noteq> pid0" for pid
        using ins(2) that by (simp add: modes_of_Cons)
      have first: "modes_of py (p # ps) pid0 = app_type e0 # modes_of py ps pid0"
        using ins(2,7) by (simp add: modes_of_Cons)
      have in1: "pid0 \<in> fst ` set d1" using ins(1) by simp
      have notin: "pid0 \<notin> fst ` set new" using new(3) in1 by blast
      have "d' = d @ ((pid0, e0) # new)" using new(1) ins(1) by simp
      moreover have "distinct (map fst ((pid0, e0) # new))" using new(2) notin by simp
      moreover have "fst ` set ((pid0, e0) # new) \<inter> fst ` set d = {}"
        using new(3) ins(1,4) by auto
      moreover have "\<forall>(pid, e) \<in> set ((pid0, e0) # new). pid \<noteq> [] \<and> google_place_id e = pid \<and>
              debug_query_source e = q \<and>
              modes_of py (p # ps) pid \<noteq> [] \<and> hd (modes_of py (p # ps) pid) = app_type e"
      proof (clarify)
        fix pid e assume m: "(pid, e) \<in> set ((pid0, e0) # new)"
        show "pid \<noteq> [] \<and> google_place_id e = pid \<and>
              debug_query_source e = q \<and>
              modes_of py (p # ps) pid \<noteq> [] \<and> hd (modes_of py (p # ps) pid) = app_type e"
        proof (cases "(pid, e) = (pid0, e0)")
          case True
          then show ?thesis using ins(3,5,6) first by simp
        next
          case False
          with m have m': "(pid, e) \<in> set new" by auto
          from fresh [OF m'] in1 have "pid \<noteq> pid0" by blast
          with ent [OF m'] other [of pid] show ?thesis by simp
        qed
      qed
      moreover have "r = None \<longrightarrow>
              (\<forall>pid. pid \<noteq> [] \<and> modes_of py (p # ps) pid \<noteq> [] \<longrightarrow> pid \<in> fst ` set d')"
      proof (intro impI allI)
        fix pid assume r: "r = None" and h: "pid \<noteq> [] \<and> modes_of py (p # ps) pid \<noteq> []"
        show "pid \<in> fst ` set d'"
        proof (cases "pid = pid0")
          case True
          then show ?thesis using new(1) in1 by auto
        next
          case False
          with h other [of pid] have "modes_of py ps pid \<noteq> []" by simp
          with comp [OF r] h show ?thesis by simp
        qed
      qed
      ultimately show ?thesis by blast
    qed
  qed
qed

lemma classifications_ok:
  assumes "api (make_params lat lon rad q) = Payload (Some ''OK'') rs"
  shows "classifications py api lat lon rad q pid = modes_of py rs pid"
  using assms by (simp add: classifications_def)

lemma classifications_not_ok:
  assumes "api (make_params lat lon rad q) = Payload status rs" "status \<noteq> Some ''OK''"
  shows "classifications py api lat lon rad q pid = []"
  using assms by (simp add: classifications_def)

lemma classifications_failed:
  assumes "api (make_params lat lon rad q) = Request_failed msg"
  shows "classifications py api lat lon rad q pid = []"
  using assms by (simp add: classifications_def)


lemma run_queries_spec:
  "\<exists>new. all_places_dict (run_queries py api lat lon rad origin_lat origin_lon qs d sent) = d @ new \<and>
     distinct (map fst new) \<and> fst ` set new \<inter> fst ` set d = {} \<and>
     (\<forall>(pid, e) \<in> set new. pid \<noteq> [] \<and> google_place_id e = pid \<and>
        (\<exists>before after. qs = before @ debug_query_source e # after \<and>
           classifications py api lat lon rad (debug_query_source e) pid \<noteq> [] \<and>
           hd (classifications py api lat lon rad (debug_query_source e) pid) = app_type e \<and>
           (\<forall>q' \<in> set before. classifications py api lat lon rad q' pid = [])))"
  (is "\<exists>new. ?P qs d sent new")
proof (induction qs arbitrary: d sent)
  case Nil
  show ?case by (rule exI [of _ "[]"]) simp
next
  case (Cons q qs)
  let ?params = "make_params lat lon rad q"
  let ?sent = "sent @ [?params]"
  have shift: "pid \<noteq> [] \<and> google_place_id e = pid \<and>
        (\<exists>before after. q # qs = before @ debug_query_source e # after \<and>
           classifications py api lat lon rad (debug_query_source e) pid \<noteq> [] \<and>
           hd (classifications py api lat lon rad (debug_query_source e) pid) = app_type e \<and>
           (\<forall>q' \<in> set before. classifications py api lat lon rad q' pid = []))"
    if none: "classifications py api lat lon rad q pid = []"
      and old: "pid \<noteq> [] \<and> google_place_id e = pid \<and>
        (\<exists>before after. qs = before @ debug_query_source e # after \<and>
           classifications py api lat lon rad (debug_query_source e) pid \<noteq> [] \<and>
           hd (classifications py api lat lon rad (debug_query_source e) pid) = app_type e \<and>
           (\<forall>q' \<in> set before. classifications py api lat lon rad q' pid = []))"
    for pid e
  proof -
    from old obtain before after where ba: "pid \<noteq> []" "google_place_id e = pid"
      "qs = before @ debug_query_source e # after"
      "classifications py api lat lon rad (debug_query_source e) pid \<noteq> []"
      "hd (classifications py api lat lon rad (debug_query_source e) pid) = app_type e"
      "\<forall>q' \<in> set before. classifications py api lat lon rad q' pid = []"
      by blast
    have "q # qs = (q # before) @ debug_query_source e # after" using ba(3) by simp
    moreover have "\<forall>q' \<in> set (q # before). classifications py api lat lon rad q' pid = []"
      using ba(6) none by simp
    ultimately show ?thesis using ba(1,2,4,5) by blast
  qed
  show ?case
  proof (cases "api ?params")
    case (Request_failed msg)
    then show ?thesis by (intro exI [of _ "[]"]) (simp add: Let_def)
  next
    case (Payload status rs)
    show ?thesis
    proof (cases "status = Some ''OK''")
      case False
      show ?thesis
      proof (cases status)
        case None
        with Payload show ?thesis by (intro exI [of _ "[]"]) (simp add: Let_def)
      next
        case (Some s)
        with False have "s \<noteq> ''OK''" by simp
        with Payload Some have run:
          "run_queries py api lat lon rad origin_lat origin_lon (q # qs) d sent = run_queries py api lat lon rad origin_lat origin_lon qs d ?sent"
          by (simp add: Let_def)
        from Cons.IH [of d ?sent] obtain new where new: "?P qs d ?sent new" ..
        have none: "classifications py api lat lon rad q pid = []" for pid
          using Payload False by (rule classifications_not_ok [of api lat lon rad q status rs])
        have "?P (q # qs) d sent new"
        proof (intro conjI ballI)
          show "all_places_dict (run_queries py api lat lon rad origin_lat origin_lon (q # qs) d sent) = d @ new"
            using run new by simp
          show "distinct (map fst new)" "fst ` set new \<inter> fst ` set d = {}" using new by blast+
        next
          fix x assume x: "x \<in> set new"
          obtain pid e where pe: "x = (pid, e)" by (cases x)
          with new x have "pid \<noteq> [] \<and> google_place_id e = pid \<and>
        (\<exists>before after. qs = before @ debug_query_source e # after \<and>
           classifications py api lat lon rad (debug_query_source e) pid \<noteq> [] \<and>
           hd (classifications py api lat lon rad (debug_query_source e) pid) = app_type e \<and>
           (\<forall>q' \<in> set before. classifications py api lat lon rad q' pid = []))"
            by blast
          from shift [OF none this]
          show "case x of (pid, e) \<Rightarrow> pid \<noteq> [] \<and> google_place_id e = pid \<and>
        (\<exists>before after. q # qs = before @ debug_query_source e # after \<and>
           classifications py api lat lon rad (debug_query_source e) pid \<noteq> [] \<and>
           hd (classifications py api lat lon rad (debug_query_source e) pid) = app_type e \<and>
           (\<forall>q' \<in> set before. classifications py api lat lon rad q' pid = []))"
            unfolding pe by simp
        qed
        then show ?thesis by blast
      qed
    next
      case True
      with Payload have ok: "api ?params = Payload (Some ''OK'') rs" by simp
      note cok = classifications_ok [of api lat lon rad q rs, OF ok]
      obtain r d1 where pr: "process_results py q lat lon origin_lat origin_lon rs d = (r, d1)"
        by (cases "process_results py q lat lon origin_lat origin_lon rs d") auto
      from process_results_spec [OF pr] obtain new0 where S:
        "d1 = d @ new0 \<and> distinct (map fst new0) \<and> fst ` set new0 \<inter> fst ` set d = {} \<and>
           (\<forall>(pid, e) \<in> set new0. pid \<noteq> [] \<and> google_place_id e = pid \<and>
              debug_query_source e = q \<and>
              modes_of py rs pid \<noteq> [] \<and> hd (modes_of py rs pid) = app_type e) \<and>
           (r = None \<longrightarrow>
              (\<forall>pid. pid \<noteq> [] \<and> modes_of py rs pid \<noteq> [] \<longrightarrow> pid \<in> fst ` set d1))" ..
      then have new0: "d1 = d @ new0" "distinct (map fst new0)" "fst ` set new0 \<inter> fst ` set d = {}"
        by simp_all
      have comp0: "pid \<in> fst ` set d1" if "r = None" "pid \<noteq> []" "modes_of py rs pid \<noteq> []" for pid
        using S that by blast
      have from_q: "pid \<noteq> [] \<and> google_place_id e = pid \<and>
        (\<exists>before after. q # qs = before @ debug_query_source e # after \<and>
           classifications py api lat lon rad (debug_query_source e) pid \<noteq> [] \<and>
           hd (classifications py api lat lon rad (debug_query_source e) pid) = app_type e \<and>
           (\<forall>q' \<in> set before. classifications py api lat lon rad q' pid = []))"
        if "(pid, e) \<in> set new0" for pid e
      proof -
        from S that have e: "pid \<noteq> []" "google_place_id e = pid" "debug_query_source e = q"
          "modes_of py rs pid \<noteq> []" "hd (modes_of py rs pid) = app_type e"
          by auto
        have "q # qs = [] @ debug_query_source e # qs" using e(3) by simp
        moreover have "classifications py api lat lon rad (debug_query_source e) pid \<noteq> []"
          "hd (classifications py api lat lon rad (debug_query_source e) pid) = app_type e"
          unfolding e(3) cok using e(4,5) by simp_all
        moreover have "\<forall>q' \<in> set []. classifications py api lat lon rad q' pid = []" by simp
        ultimately show ?thesis using e(1,2) by blast
      qed
      show ?thesis
      proof (cases r)
        case (Some err)
        with ok pr have run: "all_places_dict (run_queries py api lat lon rad origin_lat origin_lon (q # qs) d sent) = d1"
          by (simp add: Let_def)
        have "?P (q # qs) d sent new0"
        proof (intro conjI ballI)
          show "all_places_dict (run_queries py api lat lon rad origin_lat origin_lon (q # qs) d sent) = d @ new0"
            unfolding run new0(1) by simp
          show "distinct (map fst new0)" "fst ` set new0 \<inter> fst ` set d = {}"
            using new0(2,3) by blast+
        next
          fix x assume x: "x \<in> set new0"
          obtain pid e where pe: "x = (pid, e)" by (cases x)
          from x pe from_q [of pid e]
          show "case x of (pid, e) \<Rightarrow> pid \<noteq> [] \<and> google_place_id e = pid \<and>
        (\<exists>before after. q # qs = before @ debug_query_source e # after \<and>
           classifications py api lat lon rad (debug_query_source e) pid \<noteq> [] \<and>
           hd (classifications py api lat lon rad (debug_query_source e) pid) = app_type e \<and>
           (\<forall>q' \<in> set before. classifications py api lat lon rad q' pid = []))"
            by simp
        qed
        then show ?thesis by blast
      next
        case None
        with ok pr have run: "run_queries py api lat lon rad origin_lat origin_lon (q # qs) d sent = run_queries py api lat lon rad origin_lat origin_lon qs d1 ?sent"
          by (simp add: Let_def)
        from Cons.IH [of d1 ?sent] obtain new1 where new1: "?P qs d1 ?sent new1" ..
        then have n1: "all_places_dict (run_queries py api lat lon rad origin_lat origin_lon qs d1 ?sent) = d1 @ new1"
          "distinct (map fst new1)" "fst ` set new1 \<inter> fst ` set d1 = {}"
          by simp_all
        have n1e: "pid \<noteq> [] \<and> google_place_id e = pid \<and>
        (\<exists>before after. qs = before @ debug_query_source e # after \<and>
           classifications py api lat lon rad (debug_query_source e) pid \<noteq> [] \<and>
           hd (classifications py api lat lon rad (debug_query_source e) pid) = app_type e \<and>
           (\<forall>q' \<in> set before. classifications py api lat lon rad q' pid = []))"
          if "(pid, e) \<in> set new1" for pid e
          using new1 that by auto
        have disj: "fst ` set new1 \<inter> fst ` set new0 = {}" "fst ` set new1 \<inter> fst ` set d = {}"
          using n1(3) unfolding new0(1) by auto
        have later: "pid \<noteq> [] \<and> google_place_id e = pid \<and>
        (\<exists>before after. q # qs = before @ debug_query_source e # after \<and>
           classifications py api lat lon rad (debug_query_source e) pid \<noteq> [] \<and>
           hd (classifications py api lat lon rad (debug_query_source e) pid) = app_type e \<and>
           (\<forall>q' \<in> set before. classifications py api lat lon rad q' pid = []))"
          if m: "(pid, e) \<in> set new1" for pid e
        proof -
          note old = n1e [OF m]
          from m have "pid \<in> fst ` set new1" by force
          with n1(3) have fresh: "pid \<notin> fst ` set d1" by blast
          have "classifications py api lat lon rad q pid = []"
          proof (rule ccontr)
            assume "classifications py api lat lon rad q pid \<noteq> []"
            then have "modes_of py rs pid \<noteq> []" unfolding cok .
            with comp0 [OF None] old have "pid \<in> fst ` set d1" by blast
            with fresh show False by simp
          qed
          from shift [OF this old] show ?thesis .
        qed
        have "?P (q # qs) d sent (new0 @ new1)"
        proof (intro conjI ballI)
          show "all_places_dict (run_queries py api lat lon rad origin_lat origin_lon (q # qs) d sent) = d @ new0 @ new1"
            using n1(1) unfolding run new0(1) by simp
          show "distinct (map fst (new0 @ new1))"
            using new0(2) n1(2) disj(1) by (simp add: Int_commute)
          show "fst ` set (new0 @ new1) \<inter> fst ` set d = {}"
            using new0(3) disj(2) by (simp add: image_Un Int_Un_distrib2)
        next
          fix x assume x: "x \<in> set (new0 @ new1)"
          obtain pid e where pe: "x = (pid, e)" by (cases x)
          from x pe have "(pid, e) \<in> set new0 \<or> (pid, e) \<in> set new1" by simp
          then have "pid \<noteq> [] \<and> google_place_id e = pid \<and>
        (\<exists>before after. q # qs = before @ debug_query_source e # after \<and>
           classifications py api lat lon rad (debug_query_source e) pid \<noteq> [] \<and>
           hd (classifications py api lat lon rad (debug_query_source e) pid) = app_type e \<and>
           (\<forall>q' \<in> set before. classifications py api lat lon rad q' pid = []))"
            using from_q later by blast
          then show "case x of (pid, e) \<Rightarrow> pid \<noteq> [] \<and> google_place_id e = pid \<and>
        (\<exists>before after. q # qs = before @ debug_query_source e # after \<and>
           classifications py api lat lon rad (debug_query_source e) pid \<noteq> [] \<and>
           hd (classifications py api lat lon rad (debug_query_source e) pid) = app_type e \<and>
           (\<forall>q' \<in> set before. classifications py api lat lon rad q' pid = []))"
            unfolding pe by simp
        qed
        then show ?thesis by blast
      qed
    qed
  qed
qed

lemma run_queries_keeps:
  "fst ` set d \<subseteq> fst ` set (all_places_dict (run_queries py api lat lon rad origin_lat origin_lon qs d sent))"
  using run_queries_spec [of py api lat lon rad origin_lat origin_lon qs d sent] by auto

lemma run_queries_complete:
  assumes "raised (run_queries py api lat lon rad origin_lat origin_lon qs d sent) = None"
    and "q \<in> set qs" and "classifications py api lat lon rad q pid \<noteq> []" and "pid \<noteq> []"
  shows "pid \<in> fst ` set (all_places_dict (run_queries py api lat lon rad origin_lat origin_lon qs d sent))"
  using assms
proof (induction qs arbitrary: d sent)
  case Nil
  then show ?case by simp
next
  case (Cons q0 qs)
  let ?params = "make_params lat lon rad q0"
  let ?sent = "sent @ [?params]"
  from Cons.prems(1) obtain s rs where resp: "api ?params = Payload (Some s) rs"
    by (auto simp add: Let_def split: places_response.splits option.splits)
  show ?case
  proof (cases "s = ''OK''")
    case False
    with resp have run: "run_queries py api lat lon rad origin_lat origin_lon (q0 # qs) d sent = run_queries py api lat lon rad origin_lat origin_lon qs d ?sent"
      by (simp add: Let_def)
    have "classifications py api lat lon rad q0 pid = []"
      using resp False by (simp add: classifications_def)
    with Cons.prems(2,3) have "q \<in> set qs" by auto
    with Cons.IH [of d ?sent] Cons.prems(1,3,4) show ?thesis unfolding run by simp
  next
    case True
    with resp have ok: "api ?params = Payload (Some ''OK'') rs" by simp
    obtain r d1 where pr: "process_results py q0 lat lon origin_lat origin_lon rs d = (r, d1)"
      by (cases "process_results py q0 lat lon origin_lat origin_lon rs d") auto
    from Cons.prems(1) ok pr have r: "r = None"
      by (cases r) (simp_all add: Let_def)
    with ok pr have run: "run_queries py api lat lon rad origin_lat origin_lon (q0 # qs) d sent = run_queries py api lat lon rad origin_lat origin_lon qs d1 ?sent"
      by (simp add: Let_def)
    show ?thesis
    proof (cases "q = q0")
      case True
      from Cons.prems(3) have "modes_of py rs pid \<noteq> []"
        unfolding True classifications_ok [of api lat lon rad q0 rs, OF ok] .
      with process_results_spec [OF pr] r Cons.prems(4) have "pid \<in> fst ` set d1" by blast
      with run_queries_keeps [of d1 py api lat lon rad origin_lat origin_lon qs ?sent]
      show ?thesis unfolding run by blast
    next
      case False
      with Cons.prems(2) have "q \<in> set qs" by simp
      with Cons.IH [of d1 ?sent] Cons.prems(1,3,4) show ?thesis unfolding run by simp
    qed
  qed
qed

text \<open>
  C1: in every result of the aggregator the identifiers of the members are pairwise
  distinct. Every member comes from the earliest query of the fixed order whose response
  holds a classified candidate with its identifier: no query before its source query
  classifies a candidate with the identifier, and its mode is the mode of the first such
  candidate in the source query's response. When no query raised, a non-empty identifier
  that any query's response carries on a classified candidate is the identifier of exactly
  one member; by the above that member is the one of the earliest such query, whatever
  mode the later candidates would get.
\<close>

theorem first_query_wins:
  "distinct (map google_place_id (member (fst (get_google_places_data py api lat lon rad origin_lat origin_lon)))) \<and>
   (e \<in> set (member (fst (get_google_places_data py api lat lon rad origin_lat origin_lon))) \<longrightarrow>
      (\<exists>before after. queries = before @ debug_query_source e # after \<and>
         classifications py api lat lon rad (debug_query_source e) (google_place_id e) \<noteq> [] \<and>
         app_type e =
           hd (classifications py api lat lon rad (debug_query_source e) (google_place_id e)) \<and>
         (\<forall>q' \<in> set before. classifications py api lat lon rad q' (google_place_id e) = []))) \<and>
   (error (fst (get_google_places_data py api lat lon rad origin_lat origin_lon)) = None \<and>
    q \<in> set queries \<and> pid \<noteq> [] \<and> classifications py api lat lon rad q pid \<noteq> [] \<longrightarrow>
      (\<exists>!e'. e' \<in> set (member (fst (get_google_places_data py api lat lon rad origin_lat origin_lon))) \<and>
         google_place_id e' = pid))"
proof -
  let ?s = "run_queries py api lat lon rad origin_lat origin_lon queries [] []"
  from run_queries_spec [of py api lat lon rad origin_lat origin_lon queries "[]" "[]"]
  obtain new where dict: "all_places_dict ?s = new" and dist: "distinct (map fst new)"
    and entries: "\<forall>(pid, e) \<in> set new. pid \<noteq> [] \<and> google_place_id e = pid \<and>
        (\<exists>before after. queries = before @ debug_query_source e # after \<and>
           classifications py api lat lon rad (debug_query_source e) pid \<noteq> [] \<and>
           hd (classifications py api lat lon rad (debug_query_source e) pid) = app_type e \<and>
           (\<forall>q' \<in> set before. classifications py api lat lon rad q' pid = []))"
    by auto
  have mem: "member (fst (get_google_places_data py api lat lon rad origin_lat origin_lon)) = map snd new"
    by (simp add: get_google_places_data_def Let_def result_of_def dict)
  have err: "error (fst (get_google_places_data py api lat lon rad origin_lat origin_lon)) = map_option str_of_error (raised ?s)"
    by (simp add: get_google_places_data_def Let_def result_of_def)
  have ids: "map google_place_id (map snd new) = map fst new"
    using entries by (auto simp add: case_prod_beta)
  have a: "distinct (map google_place_id (member (fst (get_google_places_data py api lat lon rad origin_lat origin_lon))))"
    unfolding mem ids by (rule dist)
  have b: "\<exists>before after. queries = before @ debug_query_source e # after \<and>
         classifications py api lat lon rad (debug_query_source e) (google_place_id e) \<noteq> [] \<and>
         app_type e =
           hd (classifications py api lat lon rad (debug_query_source e) (google_place_id e)) \<and>
         (\<forall>q' \<in> set before. classifications py api lat lon rad q' (google_place_id e) = [])"
    if "e \<in> set (member (fst (get_google_places_data py api lat lon rad origin_lat origin_lon)))"
  proof -
    from that obtain k where "(k, e) \<in> set new" unfolding mem by auto
    with entries have "google_place_id e = k \<and>
        (\<exists>before after. queries = before @ debug_query_source e # after \<and>
           classifications py api lat lon rad (debug_query_source e) k \<noteq> [] \<and>
           hd (classifications py api lat lon rad (debug_query_source e) k) = app_type e \<and>
           (\<forall>q' \<in> set before. classifications py api lat lon rad q' k = []))"
      by blast
    then show ?thesis by metis
  qed
  have c: "\<exists>!e'. e' \<in> set (member (fst (get_google_places_data py api lat lon rad origin_lat origin_lon))) \<and> google_place_id e' = pid"
    if h: "error (fst (get_google_places_data py api lat lon rad origin_lat origin_lon)) = None \<and>
      q \<in> set queries \<and> pid \<noteq> [] \<and> classifications py api lat lon rad q pid \<noteq> []"
  proof -
    from h have "raised ?s = None" unfolding err by simp
    from run_queries_complete [OF this] h have "pid \<in> fst ` set new" unfolding dict by blast
    then have "pid \<in> set (map google_place_id (map snd new))" unfolding ids by simp
    then obtain e' where e': "e' \<in> set (member (fst (get_google_places_data py api lat lon rad origin_lat origin_lon)))" "google_place_id e' = pid"
      unfolding mem by auto
    from a have "inj_on google_place_id (set (member (fst (get_google_places_data py api lat lon rad origin_lat origin_lon))))"
      by (simp add: distinct_map)
    with e' show ?thesis by (auto dest: inj_onD)
  qed
  from a b c show ?thesis by blast
qed

lemma piccadilly_classified:
  "classify_place exact_python piccadilly_as_train = Some Train_station"
  "classify_place exact_python piccadilly_as_tram = Some Tram_stop"
  by (simp_all add: classify_place_def classify_def place_name_lower_def place_types_def
        piccadilly_as_train_def piccadilly_as_tram_def exact_python_lower ascii_lower_def ascii_lower_char_def)

lemma piccadilly_fields:
  "place_id piccadilly_as_train = Some ''X''" "place_id piccadilly_as_tram = Some ''X''"
  "geometry piccadilly_as_train = Some (53.4774, -2.2309)"
  "name piccadilly_as_train = Some ''Piccadilly''" "vicinity piccadilly_as_train = None"
  "place_types piccadilly_as_train = [''train_station'']"
  by (simp_all add: piccadilly_as_train_def piccadilly_as_tram_def place_types_def)

lemma duplicate_api_run:
  "get_google_places_data exact_python duplicate_api 53.48 (-2.24) 1500 None None =
     (\<lparr>error = None, member = [piccadilly_entry]\<rparr>, map (make_params 53.48 (-2.24) 1500) queries)"
  by (simp add: get_google_places_data_def queries_def duplicate_api_def make_params_def
        result_of_def process_place_def distance_val_def piccadilly_classified piccadilly_fields truthy_def
        piccadilly_entry_def)

lemma duplicate_api_later_mode:
  "classifications exact_python duplicate_api 53.48 (-2.24) 1500 (Type ''light_rail_station'') ''X'' = [Tram_stop]"
  by (simp add: classifications_def duplicate_api_def make_params_def modes_of_def
        piccadilly_classified piccadilly_fields)

theorem first_query_wins_witness:
  "piccadilly_entry \<in> set (member (fst (get_google_places_data exact_python duplicate_api 53.48 (-2.24) 1500 None None))) \<and>
   member (fst (get_google_places_data exact_python duplicate_api 53.48 (-2.24) 1500 None None)) = [piccadilly_entry] \<and>
   app_type piccadilly_entry = Train_station \<and>
   debug_query_source piccadilly_entry = Type ''train_station'' \<and>
   error (fst (get_google_places_data exact_python duplicate_api 53.48 (-2.24) 1500 None None)) = None \<and>
   Type ''light_rail_station'' \<in> set queries \<and> ''X'' \<noteq> [] \<and>
   classifications exact_python duplicate_api 53.48 (-2.24) 1500 (Type ''light_rail_station'') ''X'' = [Tram_stop] \<and>
   (\<exists>!e'. e' \<in> set (member (fst (get_google_places_data exact_python duplicate_api 53.48 (-2.24) 1500 None None))) \<and>
      google_place_id e' = ''X'')"
proof -
  note t = first_query_wins [where py = exact_python and api = duplicate_api and lat = "53.48"
      and lon = "-2.24" and rad = 1500 and origin_lat = None and origin_lon = None
      and e = piccadilly_entry and q = "Type ''light_rail_station''" and pid = "''X''"]
  have m: "member (fst (get_google_places_data exact_python duplicate_api 53.48 (-2.24) 1500 None None)) = [piccadilly_entry]"
    and err: "error (fst (get_google_places_data exact_python duplicate_api 53.48 (-2.24) 1500 None None)) = None"
    unfolding duplicate_api_run by simp_all
  have i: "piccadilly_entry \<in> set (member (fst (get_google_places_data exact_python duplicate_api 53.48 (-2.24) 1500 None None)))"
    unfolding m by simp
  have q: "Type ''light_rail_station'' \<in> set queries" by (simp add: queries_def)
  have x: "''X'' \<noteq> []" by simp
  note c = duplicate_api_later_mode
  have c': "classifications exact_python duplicate_api 53.48 (-2.24) 1500 (Type ''light_rail_station'') ''X'' \<noteq> []"
    unfolding c by simp
  have ty: "app_type piccadilly_entry = Train_station"
    "debug_query_source piccadilly_entry = Type ''train_station''"
    by (simp_all add: piccadilly_entry_def)
  from t err q x c' have u: "\<exists>!e'. e' \<in> set (member (fst (get_google_places_data exact_python duplicate_api 53.48 (-2.24) 1500 None None))) \<and>
      google_place_id e' = ''X''"
    by blast
  from t i have "\<exists>before after. queries = before @ debug_query_source piccadilly_entry # after"
    by blast
  with i m ty err q x c u show ?thesis by blast
qed

lemma run_queries_skip:
  assumes "api (make_params lat lon rad q) = Payload (Some s) rs" and "s \<noteq> ''OK''"
  shows "run_queries py api lat lon rad origin_lat origin_lon (q # qs) d sent =
         run_queries py api lat lon rad origin_lat origin_lon qs d (sent @ [make_params lat lon rad q])"
  using assms by (simp add: Let_def)

lemma run_queries_replace:
  assumes "api prm = Payload (Some s) rs" and "s \<noteq> ''OK''"
  shows "run_queries py (api(prm := Payload (Some ''OK'') [])) lat lon rad origin_lat origin_lon qs d sent =
         run_queries py api lat lon rad origin_lat origin_lon qs d sent"
proof (induction qs arbitrary: d sent)
  case Nil
  show ?case by simp
next
  case (Cons q qs)
  show ?case
  proof (cases "make_params lat lon rad q = prm")
    case True
    then show ?thesis using assms Cons.IH by (simp add: Let_def)
  next
    case False
    then show ?thesis using Cons.IH
      by (simp add: Let_def split: places_response.splits option.splits prod.splits)
  qed
qed

text \<open>
  C6: when a query is answered with a status other than OK (so also with any status that is
  neither OK nor ZERO_RESULTS), the result and the requests sent are those of the run in
  which that query is answered with OK and no candidate, and the loop goes on with the
  remaining queries from the same dictionary, with no exception recorded.
\<close>

theorem nonfatal_status_skipped:
  assumes "api (make_params lat lon rad q) = Payload (Some s) rs" and "s \<noteq> ''OK''"
  shows "get_google_places_data py api lat lon rad origin_lat origin_lon =
           get_google_places_data py (api(make_params lat lon rad q := Payload (Some ''OK'') []))
             lat lon rad origin_lat origin_lon \<and>
         run_queries py api lat lon rad origin_lat origin_lon (q # rest) d sent =
           run_queries py api lat lon rad origin_lat origin_lon rest d (sent @ [make_params lat lon rad q])"
  using run_queries_replace [where py = py and api = api and prm = "make_params lat lon rad q", OF assms]
    run_queries_skip [where py = py and api = api, OF assms]
  by (simp add: get_google_places_data_def)

lemma denied_api_run:
  "get_google_places_data exact_python denied_api 53.48 (-2.24) 1500 None None =
     (\<lparr>error = None, member = [piccadilly_entry]\<rparr>, map (make_params 53.48 (-2.24) 1500) queries)"
  by (simp add: get_google_places_data_def queries_def denied_api_def duplicate_api_def make_params_def
        result_of_def process_place_def distance_val_def piccadilly_classified piccadilly_fields truthy_def
        piccadilly_entry_def)

theorem nonfatal_status_skipped_witness:
  "denied_api (make_params 53.48 (-2.24) 1500 (Type ''subway_station'')) =
     Payload (Some ''REQUEST_DENIED'') [metrolink_piccadilly] \<and>
   ''REQUEST_DENIED'' \<noteq> ''OK'' \<and>
   get_google_places_data exact_python
     (denied_api(make_params 53.48 (-2.24) 1500 (Type ''subway_station'') := Payload (Some ''OK'') []))
     53.48 (-2.24) 1500 None None =
     (\<lparr>error = None, member = [piccadilly_entry]\<rparr>, map (make_params 53.48 (-2.24) 1500) queries)"
  using nonfatal_status_skipped [where py = exact_python and api = denied_api and lat = "53.48" and lon = "-2.24"
      and rad = 1500 and q = "Type ''subway_station''" and s = "''REQUEST_DENIED''"
      and rs = "[metrolink_piccadilly]" and origin_lat = None and origin_lon = None
      and rest = "[]" and d = "[]" and sent = "[]"]
  unfolding denied_api_run
  by (simp add: denied_api_def make_params_def)

lemma no_geometry_place_fields:
  "place_id no_geometry_place = Some ''Z''" "geometry no_geometry_place = None"
  "classify_place exact_python no_geometry_place = Some Train_station"
  by (simp_all add: no_geometry_place_def classify_place_def classify_def place_name_lower_def
        place_types_def exact_python_lower ascii_lower_def ascii_lower_char_def)

lemma malformed_api_run:
  "get_google_places_data exact_python malformed_api 53.48 (-2.24) 1500 None None =
     (\<lparr>error = Some (str_of_error (KeyError ''geometry'')), member = [piccadilly_entry]\<rparr>,
      [make_params 53.48 (-2.24) 1500 (Type ''train_station'')])"
  by (simp add: get_google_places_data_def queries_def malformed_api_def make_params_def
        result_of_def process_place_def distance_val_def piccadilly_classified piccadilly_fields truthy_def
        piccadilly_entry_def no_geometry_place_fields)

text \<open>
  C3, as stated, fails: the first query is answered with status OK and two candidates, the
  second of which has no geometry. Processing it raises, the error is set and only the
  first request was sent, yet the member list is not empty: it holds the first candidate
  of the failing response.
\<close>

theorem failure_on_first_query_counterexample:
  "error (fst (get_google_places_data exact_python malformed_api 53.48 (-2.24) 1500 None None)) \<noteq> None \<and>
   snd (get_google_places_data exact_python malformed_api 53.48 (-2.24) 1500 None None) =
     [make_params 53.48 (-2.24) 1500 (hd queries)] \<and>
   member (fst (get_google_places_data exact_python malformed_api 53.48 (-2.24) 1500 None None)) \<noteq> []"
  unfolding malformed_api_run by (simp add: queries_def)

lemma run_queries_append:
  "run_queries py api lat lon rad origin_lat origin_lon (qs1 @ qs2) d sent =
     (let s1 = run_queries py api lat lon rad origin_lat origin_lon qs1 d sent
      in if raised s1 = None
         then run_queries py api lat lon rad origin_lat origin_lon qs2 (all_places_dict s1) (requests s1)
         else s1)"
  by (induction qs1 arbitrary: d sent)
    (simp_all add: Let_def split: places_response.splits option.splits prod.splits)

lemma run_queries_requests:
  "raised (run_queries py api lat lon rad origin_lat origin_lon qs d sent) = None \<Longrightarrow>
     requests (run_queries py api lat lon rad origin_lat origin_lon qs d sent) =
       sent @ map (make_params lat lon rad) qs"
  by (induction qs arbitrary: d sent)
    (auto simp add: Let_def split: places_response.splits option.splits prod.splits if_splits)

lemma process_results_append:
  "process_results py q lat lon origin_lat origin_lon (ps1 @ ps2) d =
     (case process_results py q lat lon origin_lat origin_lon ps1 d of
        (Some e, d') \<Rightarrow> (Some e, d')
      | (None, d') \<Rightarrow> process_results py q lat lon origin_lat origin_lon ps2 d')"
  by (induction ps1 arbitrary: d) (simp_all split: prod.splits option.splits)

lemma process_place_no_geometry:
  assumes "place_id p = Some pid" "pid \<noteq> []" "classify_place py p \<noteq> None"
    "pid \<notin> fst ` set d" "geometry p = None"
  shows "process_place py q lat lon origin_lat origin_lon p d = (Some (KeyError ''geometry''), d)"
  using assms by (auto simp add: process_place_def distance_val_def)

text \<open>
  C3, amended: let the queries before \<open>q\<close> in the fixed order have completed without an
  exception. If the request of \<open>q\<close> raises, or its payload has no status, no further
  request is sent and the result holds the error and exactly the candidates accumulated
  from the earlier queries (none when \<open>q\<close> is the first query). If the response of \<open>q\<close>
  is OK and a candidate of it that would be inserted has no geometry, no further request
  is sent either, and the result holds the error and the dictionary as it was when that
  candidate was reached: the candidates of the earlier queries followed by those of this
  response that were inserted before it.
\<close>

theorem failure_stops_aggregation:
  assumes "queries = before @ q # after"
    and "raised (run_queries py api lat lon rad origin_lat origin_lon before [] []) = None"
  shows
    "(api (make_params lat lon rad q) = Request_failed msg \<longrightarrow>
        get_google_places_data py api lat lon rad origin_lat origin_lon =
          (\<lparr>error = Some msg,
            member = map snd (all_places_dict
                        (run_queries py api lat lon rad origin_lat origin_lon before [] []))\<rparr>,
           map (make_params lat lon rad) (before @ [q]))) \<and>
     (api (make_params lat lon rad q) = Payload None rs \<longrightarrow>
        get_google_places_data py api lat lon rad origin_lat origin_lon =
          (\<lparr>error = Some (str_of_error (KeyError ''status'')),
            member = map snd (all_places_dict
                        (run_queries py api lat lon rad origin_lat origin_lon before [] []))\<rparr>,
           map (make_params lat lon rad) (before @ [q]))) \<and>
     (api (make_params lat lon rad q) = Payload (Some ''OK'') (good @ bad # rest) \<and>
      process_results py q lat lon origin_lat origin_lon good
        (all_places_dict (run_queries py api lat lon rad origin_lat origin_lon before [] [])) =
        (None, d1) \<and>
      place_id bad = Some pid \<and> pid \<noteq> [] \<and> classify_place py bad \<noteq> None \<and>
      pid \<notin> fst ` set d1 \<and> geometry bad = None \<longrightarrow>
        get_google_places_data py api lat lon rad origin_lat origin_lon =
          (\<lparr>error = Some (str_of_error (KeyError ''geometry'')), member = map snd d1\<rparr>,
           map (make_params lat lon rad) (before @ [q])) \<and>
        (\<exists>new. d1 = all_places_dict
                    (run_queries py api lat lon rad origin_lat origin_lon before [] []) @ new))"
proof -
  let ?s0 = "run_queries py api lat lon rad origin_lat origin_lon before [] []"
  let ?d0 = "all_places_dict ?s0"
  let ?sent = "map (make_params lat lon rad) before"
  have req: "requests ?s0 = ?sent"
    using run_queries_requests [OF assms(2)] by simp
  have split: "run_queries py api lat lon rad origin_lat origin_lon queries [] [] =
      run_queries py api lat lon rad origin_lat origin_lon (q # after) ?d0 ?sent"
    unfolding assms(1) run_queries_append [of py api lat lon rad origin_lat origin_lon before "q # after"]
    using assms(2) req by (simp add: Let_def)
  have a: "api (make_params lat lon rad q) = Request_failed msg \<Longrightarrow>
      run_queries py api lat lon rad origin_lat origin_lon (q # after) ?d0 ?sent =
        \<lparr>raised = Some (RequestException msg), all_places_dict = ?d0,
         requests = ?sent @ [make_params lat lon rad q]\<rparr>"
    by (simp add: Let_def)
  have b: "api (make_params lat lon rad q) = Payload None rs \<Longrightarrow>
      run_queries py api lat lon rad origin_lat origin_lon (q # after) ?d0 ?sent =
        \<lparr>raised = Some (KeyError ''status''), all_places_dict = ?d0,
         requests = ?sent @ [make_params lat lon rad q]\<rparr>"
    by (simp add: Let_def)
  have c: "run_queries py api lat lon rad origin_lat origin_lon (q # after) ?d0 ?sent =
        \<lparr>raised = Some (KeyError ''geometry''), all_places_dict = d1,
         requests = ?sent @ [make_params lat lon rad q]\<rparr> \<and> (\<exists>new. d1 = ?d0 @ new)"
    if resp: "api (make_params lat lon rad q) = Payload (Some ''OK'') (good @ bad # rest)"
      and good: "process_results py q lat lon origin_lat origin_lon good ?d0 = (None, d1)"
      and bad: "place_id bad = Some pid" "pid \<noteq> []" "classify_place py bad \<noteq> None"
        "pid \<notin> fst ` set d1" "geometry bad = None"
  proof -
    have "process_place py q lat lon origin_lat origin_lon bad d1 = (Some (KeyError ''geometry''), d1)"
      using bad by (rule process_place_no_geometry)
    then have "process_results py q lat lon origin_lat origin_lon (good @ bad # rest) ?d0 =
        (Some (KeyError ''geometry''), d1)"
      unfolding process_results_append good by simp
    with resp have "run_queries py api lat lon rad origin_lat origin_lon (q # after) ?d0 ?sent =
        \<lparr>raised = Some (KeyError ''geometry''), all_places_dict = d1,
         requests = ?sent @ [make_params lat lon rad q]\<rparr>"
      by (simp add: Let_def)
    moreover from process_results_spec [OF good] have "\<exists>new. d1 = ?d0 @ new" by blast
    ultimately show ?thesis by blast
  qed
  show ?thesis
  proof (intro conjI impI)
    assume "api (make_params lat lon rad q) = Request_failed msg"
    from a [OF this] show "get_google_places_data py api lat lon rad origin_lat origin_lon =
          (\<lparr>error = Some msg, member = map snd ?d0\<rparr>, map (make_params lat lon rad) (before @ [q]))"
      unfolding get_google_places_data_def split by (simp add: result_of_def)
  next
    assume "api (make_params lat lon rad q) = Payload None rs"
    from b [OF this] show "get_google_places_data py api lat lon rad origin_lat origin_lon =
          (\<lparr>error = Some (str_of_error (KeyError ''status'')), member = map snd ?d0\<rparr>,
           map (make_params lat lon rad) (before @ [q]))"
      unfolding get_google_places_data_def split by (simp add: result_of_def)
  next
    assume h: "api (make_params lat lon rad q) = Payload (Some ''OK'') (good @ bad # rest) \<and>
      process_results py q lat lon origin_lat origin_lon good ?d0 = (None, d1) \<and>
      place_id bad = Some pid \<and> pid \<noteq> [] \<and> classify_place py bad \<noteq> None \<and>
      pid \<notin> fst ` set d1 \<and> geometry bad = None"
    then have run: "run_queries py api lat lon rad origin_lat origin_lon (q # after) ?d0 ?sent =
        \<lparr>raised = Some (KeyError ''geometry''), all_places_dict = d1,
         requests = ?sent @ [make_params lat lon rad q]\<rparr>" and ext: "\<exists>new. d1 = ?d0 @ new"
      using c by blast+
    from run show "get_google_places_data py api lat lon rad origin_lat origin_lon =
          (\<lparr>error = Some (str_of_error (KeyError ''geometry'')), member = map snd d1\<rparr>,
           map (make_params lat lon rad) (before @ [q]))"
      unfolding get_google_places_data_def split by (simp add: result_of_def)
    from ext show "\<exists>new. d1 = ?d0 @ new" .
  qed
qed

lemma first_query_split: "queries = [] @ Type ''train_station'' # tl queries"
  by (simp add: queries_def)

lemma no_query_run:
  "run_queries py api lat lon rad origin_lat origin_lon [] [] [] =
     \<lparr>raised = None, all_places_dict = [], requests = []\<rparr>"
  by simp

lemma piccadilly_processed:
  "process_results exact_python (Type ''train_station'') 53.48 (-2.24) None None [piccadilly_as_train] [] =
     (None, [(''X'', piccadilly_entry)])"
  by (simp add: process_place_def distance_val_def piccadilly_classified piccadilly_fields truthy_def
        piccadilly_entry_def)

theorem failure_stops_aggregation_witness:
  "queries = [] @ Type ''train_station'' # tl queries \<and>
   raised (run_queries exact_python timeout_api 53.48 (-2.24) 1500 None None [] [] []) = None \<and>
   timeout_api (make_params 53.48 (-2.24) 1500 (Type ''train_station'')) =
     Request_failed ''Read timed out.'' \<and>
   get_google_places_data exact_python timeout_api 53.48 (-2.24) 1500 None None =
     (\<lparr>error = Some ''Read timed out.'', member = []\<rparr>,
      [make_params 53.48 (-2.24) 1500 (Type ''train_station'')]) \<and>
   no_status_api (make_params 53.48 (-2.24) 1500 (Type ''train_station'')) = Payload None [] \<and>
   get_google_places_data exact_python no_status_api 53.48 (-2.24) 1500 None None =
     (\<lparr>error = Some (str_of_error (KeyError ''status'')), member = []\<rparr>,
      [make_params 53.48 (-2.24) 1500 (Type ''train_station'')]) \<and>
   malformed_api (make_params 53.48 (-2.24) 1500 (Type ''train_station'')) =
     Payload (Some ''OK'') ([piccadilly_as_train] @ no_geometry_place # []) \<and>
   place_id no_geometry_place = Some ''Z'' \<and> geometry no_geometry_place = None \<and>
   get_google_places_data exact_python malformed_api 53.48 (-2.24) 1500 None None =
     (\<lparr>error = Some (str_of_error (KeyError ''geometry'')), member = [piccadilly_entry]\<rparr>,
      [make_params 53.48 (-2.24) 1500 (Type ''train_station'')])"
proof -
  note split = first_query_split
  have t: "timeout_api (make_params 53.48 (-2.24) 1500 (Type ''train_station'')) =
     Request_failed ''Read timed out.''"
    by (simp add: timeout_api_def)
  have n: "no_status_api (make_params 53.48 (-2.24) 1500 (Type ''train_station'')) = Payload None []"
    by (simp add: no_status_api_def)
  have m: "malformed_api (make_params 53.48 (-2.24) 1500 (Type ''train_station'')) =
     Payload (Some ''OK'') ([piccadilly_as_train] @ no_geometry_place # [])"
    by (simp add: malformed_api_def make_params_def)
  have r: "raised (run_queries exact_python api 53.48 (-2.24) 1500 None None [] [] []) = None" for api
    by simp
  have fresh: "''Z'' \<notin> fst ` set [(''X'', piccadilly_entry)]" "''Z'' \<noteq> []"
    "classify_place exact_python no_geometry_place \<noteq> None"
    by (simp_all add: no_geometry_place_fields)
  from failure_stops_aggregation [where py = exact_python and api = timeout_api and msg = "''Read timed out.''",
      OF split r] t
  have 1: "get_google_places_data exact_python timeout_api 53.48 (-2.24) 1500 None None =
     (\<lparr>error = Some ''Read timed out.'', member = []\<rparr>,
      [make_params 53.48 (-2.24) 1500 (Type ''train_station'')])"
    unfolding no_query_run by simp
  from failure_stops_aggregation [where py = exact_python and api = no_status_api and rs = "[]", OF split r] n
  have 2: "get_google_places_data exact_python no_status_api 53.48 (-2.24) 1500 None None =
     (\<lparr>error = Some (str_of_error (KeyError ''status'')), member = []\<rparr>,
      [make_params 53.48 (-2.24) 1500 (Type ''train_station'')])"
    unfolding no_query_run by simp
  from failure_stops_aggregation [where py = exact_python and api = malformed_api and good = "[piccadilly_as_train]"
      and bad = no_geometry_place and rest = "[]" and pid = "''Z''"
      and ?d1.0 = "[(''X'', piccadilly_entry)]", OF split r]
    m fresh no_geometry_place_fields(1,2) piccadilly_processed
  have 3: "get_google_places_data exact_python malformed_api 53.48 (-2.24) 1500 None None =
     (\<lparr>error = Some (str_of_error (KeyError ''geometry'')), member = [piccadilly_entry]\<rparr>,
      [make_params 53.48 (-2.24) 1500 (Type ''train_station'')])"
    unfolding no_query_run by simp
  show ?thesis
    using split r [of timeout_api] t n m no_geometry_place_fields(1,2) 1 2 3 by blast
qed

lemma greenwich_stop_fields:
  "place_id greenwich_stop = Some ''G''" "geometry greenwich_stop = Some (51.4780, 0.0012)"
  "classify_place (py\<lparr>str_lower := ascii_lower\<rparr>) greenwich_stop = Some Bus_stop"
  by (simp_all add: greenwich_stop_def classify_place_def classify_def place_name_lower_def
        place_types_def ascii_lower_def ascii_lower_char_def)

text \<open>
  What the code does for the distance of an inserted place: the value that \<^verbatim>\<open>haversine\<close>
  returns for the origin and the place when both origin coordinates are given and neither
  is 0, nothing otherwise; and \<open>py_round\<close> gives a nearest integer.
\<close>

lemma py_round_nearest: "\<bar>real_of_int (py_round x) - x\<bar> \<le> 1 / 2"
  unfolding py_round_def Let_def by (auto simp add: abs_if) linarith+

lemma inserted_distance:
  assumes "process_place py q lat lon origin_lat origin_lon p d = (None, d @ [(pid, e)])"
  shows "(truthy origin_lat \<and> truthy origin_lon \<longrightarrow>
            (\<exists>a b dv. origin_lat = Some a \<and> origin_lon = Some b \<and>
               haversine py a b (latitude e) (longitude e) = Inr dv \<and> distance e = Some dv)) \<and>
         (\<not> (truthy origin_lat \<and> truthy origin_lon) \<longrightarrow> distance e = None)"
  using assms
  by (auto simp add: process_place_def distance_val_def truthy_def py_or_def
        split: option.splits if_splits prod.splits sum.splits)

text \<open>When \<^verbatim>\<open>haversine\<close> raises, the candidate is not inserted and the exception ends the loop.\<close>

lemma process_place_value_error:
  assumes "place_id p = Some pid" "pid \<noteq> []" "classify_place py p \<noteq> None"
    "pid \<notin> fst ` set d" "geometry p = Some (place_lat, place_lon)"
    "distance_val py lat lon origin_lat origin_lon place_lat place_lon = Inl err"
  shows "process_place py q lat lon origin_lat origin_lon p d = (Some err, d)"
  using assms by (auto simp add: process_place_def)

text \<open>
  C4 at an origin on the prime meridian: both origin coordinates are given, the longitude
  is 0, and the place that is inserted has no distance, because the test
  \<^verbatim>\<open>origin_lat and origin_lon\<close> takes the float 0.0 for false. The name of the place is
  ASCII, and the float arithmetic of the runtime is arbitrary: \<^verbatim>\<open>haversine\<close> is not called.
\<close>

theorem distance_unset_on_prime_meridian:
  "map distance
     (member (fst (get_google_places_data (py\<lparr>str_lower := ascii_lower\<rparr>) meridian_api
                     51.4779 0 1500 (Some 51.4779) (Some 0)))) =
   [None]"
  by (simp add: get_google_places_data_def queries_def meridian_api_def make_params_def
        result_of_def process_place_def distance_val_def greenwich_stop_fields truthy_def)

subsection \<open>Theorems on the distance\<close>

text \<open>
  When the argument of the second square root comes out negative, which happens when the
  float \<open>a\<close> is above 1 and the float subtraction gives the sign of the exact difference,
  \<^verbatim>\<open>haversine\<close> raises.
\<close>

lemma haversine_raises:
  assumes "0 \<le> haversine_a py lat1 lon1 lat2 lon2"
    and "float_sub py 1 (haversine_a py lat1 lon1 lat2 lon2) < 0"
  shows "haversine py lat1 lon1 lat2 lon2 = Inl (ValueError ''math domain error'')"
  using assms by (simp add: haversine_def math_sqrt_def Let_def)

text \<open>
  The rest of this section is about the runtime with exact real arithmetic only. There
  \<open>a\<close> is a weighted mean of two squares of a sine and a cosine, the weight being the
  square of a sine, so it lies in the unit interval and \<^verbatim>\<open>haversine\<close> returns; the distance
  from a point to itself is 0 and the distance does not change when the two points are
  exchanged. None of this carries over to the arithmetic of floats.
\<close>

lemma atan2_0_1: "atan2 0 1 = 0"
  by (simp add: atan2_def)

lemma py_round_0: "py_round 0 = 0"
  by (simp add: py_round_def)

lemma haversine_a_exact:
  "haversine_a exact_python lat1 lon1 lat2 lon2 =
     (sin (radians (lat2 - lat1) / 2))\<^sup>2 +
     cos (radians lat1) * cos (radians lat2) * (sin (radians (lon2 - lon1) / 2))\<^sup>2"
  by (simp add: haversine_a_def exact_python_def Let_def)

lemma haversine_a_self: "haversine_a exact_python x y x y = 0"
  by (simp add: haversine_a_exact radians_def)

lemma haversine_a_sym: "haversine_a exact_python a b c d = haversine_a exact_python c d a b"
proof -
  have 1: "radians (c - a) / 2 = - (radians (a - c) / 2)"
    by (simp add: radians_def field_simps)
  have 2: "radians (d - b) / 2 = - (radians (b - d) / 2)"
    by (simp add: radians_def field_simps)
  show ?thesis
    unfolding haversine_a_exact 1 2 sin_minus by (simp add: mult.commute)
qed

lemma sin_half_sq: "(sin (x / 2))\<^sup>2 = (1 - cos x) / 2" for x :: real
  using cos_double_sin [of "x / 2"] by simp

lemma cos_half_sq: "(cos (x / 2))\<^sup>2 = (1 + cos x) / 2" for x :: real
  using cos_double_cos [of "x / 2"] by simp

lemma haversine_a_convex:
  "haversine_a exact_python lat1 lon1 lat2 lon2 =
     (1 - (sin (radians (lon2 - lon1) / 2))\<^sup>2) * (sin (radians (lat2 - lat1) / 2))\<^sup>2 +
     (sin (radians (lon2 - lon1) / 2))\<^sup>2 * (cos ((radians lat1 + radians lat2) / 2))\<^sup>2"
proof -
  have d: "radians (lat2 - lat1) = radians lat2 - radians lat1"
    by (simp add: radians_def algebra_simps diff_divide_distrib)
  have "(cos ((radians lat1 + radians lat2) / 2))\<^sup>2 =
        (sin (radians (lat2 - lat1) / 2))\<^sup>2 + cos (radians lat1) * cos (radians lat2)"
    unfolding cos_half_sq sin_half_sq d cos_add cos_diff by (simp add: field_simps)
  then show ?thesis
    by (simp add: haversine_a_exact algebra_simps)
qed

lemma haversine_a_range:
  "0 \<le> haversine_a exact_python lat1 lon1 lat2 lon2 \<and>
   haversine_a exact_python lat1 lon1 lat2 lon2 \<le> 1"
proof -
  define s where "s = (sin (radians (lon2 - lon1) / 2))\<^sup>2"
  define u where "u = (sin (radians (lat2 - lat1) / 2))\<^sup>2"
  define v where "v = (cos ((radians lat1 + radians lat2) / 2))\<^sup>2"
  have s: "0 \<le> s" "s \<le> 1" by (simp_all add: s_def abs_square_le_1)
  have u: "0 \<le> u" "u \<le> 1" by (simp_all add: u_def abs_square_le_1)
  have v: "0 \<le> v" "v \<le> 1" by (simp_all add: v_def abs_square_le_1)
  have a: "haversine_a exact_python lat1 lon1 lat2 lon2 = (1 - s) * u + s * v"
    unfolding s_def u_def v_def by (rule haversine_a_convex)
  have "0 \<le> (1 - s) * u + s * v"
    using s u v by simp
  moreover have "(1 - s) * u + s * v \<le> (1 - s) * 1 + s * 1"
    using s u v by (intro add_mono mult_left_mono) simp_all
  ultimately show ?thesis using a by simp
qed

lemma haversine_exact:
  "haversine exact_python lat1 lon1 lat2 lon2 =
     Inr (py_round (6371000 *
            (2 * atan2 (sqrt (haversine_a exact_python lat1 lon1 lat2 lon2))
                   (sqrt (1 - haversine_a exact_python lat1 lon1 lat2 lon2)))))"
proof -
  have m: "math_sqrt exact_python x = Inr (sqrt x)" if "0 \<le> x" for x
    using that by (simp add: math_sqrt_def exact_python_def)
  have s: "float_sub exact_python 1 x = 1 - x" and t: "float_mul exact_python x y = x * y"
    and u: "math_atan2 exact_python x y = atan2 x y" for x y
    by (simp_all add: exact_python_def)
  from haversine_a_range [of lat1 lon1 lat2 lon2]
  have "0 \<le> haversine_a exact_python lat1 lon1 lat2 lon2"
    "0 \<le> 1 - haversine_a exact_python lat1 lon1 lat2 lon2"
    by simp_all
  then show ?thesis
    by (simp add: haversine_def Let_def s t u m)
qed

lemma haversine_exact_zero_and_symmetric:
  "haversine exact_python x y x y = Inr 0 \<and>
   haversine exact_python a b c d = haversine exact_python c d a b"
  unfolding haversine_exact haversine_a_self haversine_a_sym [of a b c d]
  by (simp add: atan2_0_1 py_round_0)

subsection \<open>Theorems on the geocode resolver\<close>

lemma not_found_message: "str_contains ''not found'' (''Postcode not found by Google: '' @ pc)"
  by simp

text \<open>
  C5: when the geocoding provider answers a postcode with the status ZERO_RESULTS, the
  resolver returns the error dictionary whose message is "Postcode not found by Google: "
  followed by the postcode, which contains "not found"; the page then shows the error and
  sends no request to the places provider.
\<close>

theorem geocode_zero_results:
  assumes "geocode_api pc = Geocode_payload (Some ''ZERO_RESULTS'') results"
  shows "get_google_geocode_data geocode_api pc = Inl (''Postcode not found by Google: '' @ pc) \<and>
         str_contains ''not found'' (''Postcode not found by Google: '' @ pc) \<and>
         (validate_postcode active_postcode = (True, pc, error_message) \<longrightarrow>
            search py validate_postcode geocode_api places_api active_postcode radius_m =
              (Location_error (''Postcode not found by Google: '' @ pc), [pc], []))"
  using assms by (simp add: get_google_geocode_data_def search_def)

theorem geocode_zero_results_witness:
  "zero_results_geocoder ''ZZ99 9ZZ'' = Geocode_payload (Some ''ZERO_RESULTS'') (Some []) \<and>
   accept_postcode ''ZZ99 9ZZ'' = (True, ''ZZ99 9ZZ'', []) \<and>
   get_google_geocode_data zero_results_geocoder ''ZZ99 9ZZ'' =
     Inl ''Postcode not found by Google: ZZ99 9ZZ'' \<and>
   search exact_python accept_postcode zero_results_geocoder no_places_api ''ZZ99 9ZZ'' 1500 =
     (Location_error ''Postcode not found by Google: ZZ99 9ZZ'', [''ZZ99 9ZZ''], [])"
  using geocode_zero_results [where geocode_api = zero_results_geocoder and pc = "''ZZ99 9ZZ''" and results = "Some []"
      and py = exact_python and validate_postcode = accept_postcode
      and active_postcode = "''ZZ99 9ZZ''" and error_message = "[]"
      and places_api = no_places_api and radius_m = 1500]
  by (simp add: zero_results_geocoder_def accept_postcode_def)

text \<open>
  C9: when the geocoding provider answers with the status OK and an empty results array,
  the resolver returns the error dictionary of the generic branch, whose message reports
  the status; it is not the "not found" message.
\<close>

theorem geocode_ok_empty_results:
  assumes "geocode_api pc = Geocode_payload (Some ''OK'') (Some [])"
  shows "get_google_geocode_data geocode_api pc = Inl ''Geocoding API returned status: OK'' \<and>
         get_google_geocode_data geocode_api pc \<noteq> Inl (''Postcode not found by Google: '' @ pc)"
  using assms by (simp add: get_google_geocode_data_def)

theorem geocode_ok_empty_results_witness:
  "empty_ok_geocoder ''M1 1RG'' = Geocode_payload (Some ''OK'') (Some []) \<and>
   get_google_geocode_data empty_ok_geocoder ''M1 1RG'' = Inl ''Geocoding API returned status: OK''"
  using geocode_ok_empty_results [of empty_ok_geocoder "''M1 1RG''"]
  by (simp add: empty_ok_geocoder_def)

subsection \<open>Theorems on the sorted groups\<close>

lemma dist_key_le_cases:
  "distance_key a \<le> distance_key b \<longleftrightarrow>
     (case distance b of None \<Rightarrow> True
      | Some db \<Rightarrow> (\<exists>da. distance a = Some da \<and> da \<le> db))"
  by (simp add: distance_key_def split: option.splits)

lemma stations_by_type_group:
  "(k, out) \<in> set (stations_by_type members) \<Longrightarrow>
     out = sort_key distance_key (filter (\<lambda>pl. app_type pl = k) members)"
  by (auto simp add: stations_by_type_def)

lemma sort_key_positions:
  assumes "i < j" "j < length (sort_key f xs)"
  shows "f (sort_key f xs ! i) \<le> f (sort_key f xs ! j)"
proof -
  have "sorted (map f (sort_key f xs))" by (rule sorted_sort_key)
  moreover have "j < length (map f (sort_key f xs))" using assms by simp
  ultimately have "map f (sort_key f xs) ! i \<le> map f (sort_key f xs) ! j"
    using assms(1) by (simp add: sorted_iff_nth_mono del: length_map sorted_sort_key length_sort)
  then show ?thesis using assms by simp
qed

text \<open>
  C7: each group of the details tab holds the places of its mode, sorted so that at any two
  positions \<open>i < j\<close>, if the later place has a distance then the earlier one has a
  distance too and it is not larger. Hence the places with a distance come first, in
  ascending order, and every place without a distance comes after all of them.
\<close>

theorem groups_sorted_by_distance:
  assumes "(k, out) \<in> set (stations_by_type members)" and "i < j" and "j < length out"
  shows "mset out = mset (filter (\<lambda>pl. app_type pl = k) members) \<and>
         (case distance (out ! j) of
            None \<Rightarrow> True
          | Some dj \<Rightarrow> (\<exists>di. distance (out ! i) = Some di \<and> di \<le> dj))"
proof -
  from assms(1) have out: "out = sort_key distance_key (filter (\<lambda>pl. app_type pl = k) members)"
    by (rule stations_by_type_group)
  have "distance_key (out ! i) \<le> distance_key (out ! j)"
    using assms(2,3) unfolding out by (rule sort_key_positions)
  then have "case distance (out ! j) of
            None \<Rightarrow> True
          | Some dj \<Rightarrow> (\<exists>di. distance (out ! i) = Some di \<and> di \<le> dj)"
    by (simp only: dist_key_le_cases)
  moreover have "mset out = mset (filter (\<lambda>pl. app_type pl = k) members)"
    by (simp add: out)
  ultimately show ?thesis by blast
qed

lemma bus_stop_at_simps:
  "app_type (bus_stop_at pid dval) = Bus_stop" "distance (bus_stop_at pid dval) = dval"
  by (simp_all add: bus_stop_at_def)

lemma example_group:
  "stations_by_type [bus_stop_at ''A'' None, bus_stop_at ''B'' (Some 300), bus_stop_at ''C'' (Some 120)] =
     [(Train_station, []), (Tube_station, []),
      (Bus_stop, [bus_stop_at ''C'' (Some 120), bus_stop_at ''B'' (Some 300), bus_stop_at ''A'' None]),
      (Tram_stop, [])]"
  by (simp add: stations_by_type_def bus_stop_at_simps distance_key_def)

theorem groups_sorted_by_distance_witness:
  "(Bus_stop, [bus_stop_at ''C'' (Some 120), bus_stop_at ''B'' (Some 300), bus_stop_at ''A'' None])
     \<in> set (stations_by_type
          [bus_stop_at ''A'' None, bus_stop_at ''B'' (Some 300), bus_stop_at ''C'' (Some 120)]) \<and>
   (0::nat) < 1 \<and>
   1 < length [bus_stop_at ''C'' (Some 120), bus_stop_at ''B'' (Some 300), bus_stop_at ''A'' None] \<and>
   (\<exists>di. distance ([bus_stop_at ''C'' (Some 120), bus_stop_at ''B'' (Some 300), bus_stop_at ''A'' None] ! 0)
            = Some di \<and> di \<le> 300)"
  using groups_sorted_by_distance
    [of Bus_stop "[bus_stop_at ''C'' (Some 120), bus_stop_at ''B'' (Some 300), bus_stop_at ''A'' None]"
        "[bus_stop_at ''A'' None, bus_stop_at ''B'' (Some 300), bus_stop_at ''C'' (Some 120)]" 0 1]
  unfolding example_group
  by (simp add: bus_stop_at_simps)

end
